theory Spec2Isabelle
  imports Complex_Main "HOL-Library.Char_ord" "HOL-Library.List_Lexorder"
begin

section \<open>Values, columns and datasets\<close>

text \<open>
  The program works on pandas data frames read from CSV files. A column of a frame has
  a storage kind (its dtype): a numeric column holds numbers and absent markers, an
  object column holds text and absent markers. Numbers are modelled as real numbers, so
  the thresholds 0.8, 0.7 and 0.5 and the quantile interpolation are exact; text is a
  list of bytes and the text operations are the ASCII ones. Boolean columns are not
  modelled. A fill made in place on a column updates the frame. With \<open>errors='coerce'\<close>
  the parsers of pandas return an absent value where they cannot parse and do not raise.
\<close>

datatype val = NaN | Num real | Str string

datatype column = NumCol "real option list" | ObjCol "string option list"

type_synonym dataset = "(string \<times> column) list"

fun cells :: "column \<Rightarrow> val list" where
  "cells (NumCol xs) = map (\<lambda>x. case x of None \<Rightarrow> NaN | Some r \<Rightarrow> Num r) xs"
| "cells (ObjCol ss) = map (\<lambda>s. case s of None \<Rightarrow> NaN | Some t \<Rightarrow> Str t) ss"

definition col_len :: "column \<Rightarrow> nat" where
  "col_len c = length (cells c)"

text \<open>\<open>len(df)\<close>: the number of rows, read off the first column.\<close>

definition len_df :: "dataset \<Rightarrow> nat" where
  "len_df df = (case df of [] \<Rightarrow> 0 | (name, c) # rest \<Rightarrow> col_len c)"

definition isna :: "val \<Rightarrow> bool" where
  "isna v = (v = NaN)"

definition dropna :: "'a option list \<Rightarrow> 'a list" where
  "dropna xs = List.map_filter (\<lambda>x. x) xs"

definition notna_sum :: "'a option list \<Rightarrow> nat" where
  "notna_sum xs = length (dropna xs)"

definition isna_sum :: "column \<Rightarrow> nat" where
  "isna_sum c = length (filter isna (cells c))"

section \<open>Text operations\<close>

text \<open>\<open>str.isspace\<close> on ASCII: tab to carriage return, the four separators, space.\<close>

definition is_space :: "char \<Rightarrow> bool" where
  "is_space c = (let n = (of_char c :: nat) in (9 \<le> n \<and> n \<le> 13) \<or> (28 \<le> n \<and> n \<le> 32))"

definition strip :: "string \<Rightarrow> string" where
  "strip s = rev (dropWhile is_space (rev (dropWhile is_space s)))"

definition lower_char :: "char \<Rightarrow> char" where
  "lower_char c = (let n = (of_char c :: nat) in if 65 \<le> n \<and> n \<le> 90 then char_of (n + 32) else c)"

definition lower :: "string \<Rightarrow> string" where
  "lower s = map lower_char s"

text \<open>\<open>clean_string\<close> of utils.py on text: strip, then lowercase.\<close>

definition clean_text :: "string \<Rightarrow> string" where
  "clean_text s = lower (strip s)"

text \<open>\<open>clean_string\<close> of utils.py on any value: a value that is not text is returned as it is.\<close>

fun clean_string :: "val \<Rightarrow> val" where
  "clean_string (Str s) = Str (clean_text s)"
| "clean_string v = v"

text \<open>Decimal rendering of the counters inside f-strings.\<close>

definition digit_char :: "nat \<Rightarrow> char" where
  "digit_char n = char_of (48 + n)"

fun str_nat :: "nat \<Rightarrow> string" where
  "str_nat n = (if n < 10 then [digit_char n] else str_nat (n div 10) @ [digit_char (n mod 10)])"

declare str_nat.simps [simp del]

definition str_int :: "int \<Rightarrow> string" where
  "str_int i = (if i < 0 then CHR ''-'' # str_nat (nat (- i)) else str_nat (nat i))"

section \<open>The script synthesizer\<close>

text \<open>
  \<open>generate_python_script\<close> of cleaning_logic.py returns one literal, the text of the
  standalone script, given here line by line.
\<close>

definition script_lines :: "string list" where
  \<open>script_lines = [
    ''"""'',
    ''Auto-generated Data Cleaning Script'',
    ''Generated by Data Cleaning Bot'',
    ''This script replicates all the cleaning operations performed.'',
    ''"""'',
    '''',
    ''import pandas as pd'',
    ''import numpy as np'',
    ''import re'',
    ''from datetime import datetime'',
    '''',
    '''',
    ''def clean_string(value):'',
    ''    """Trim and normalize string values."""'',
    ''    if not isinstance(value, str):'',
    ''        return value'',
    ''    value = value.strip().lower()'',
    ''    return value'',
    '''',
    '''',
    ''def detect_column_type(series):'',
    ''    """Detect if a column is numeric, categorical, or date."""'',
    ''    non_null = series.dropna()'',
    ''    if len(non_null) == 0:'',
    ''        return 'unknown'' @ [CHR 0x27],
    ''    '',
    ''    try:'',
    ''        pd.to_numeric(series, errors='coerce')'',
    ''        if pd.to_numeric(series, errors='coerce').notna().sum() > len(non_null) * 0.8:'',
    ''            return 'numeric'' @ [CHR 0x27],
    ''    except:'',
    ''        pass'',
    ''    '',
    ''    try:'',
    ''        pd.to_datetime(series, errors='coerce')'',
    ''        if pd.to_datetime(series, errors='coerce').notna().sum() > len(non_null) * 0.8:'',
    ''            return 'date'' @ [CHR 0x27],
    ''    except:'',
    ''        pass'',
    ''    '',
    ''    unique_ratio = len(non_null.unique()) / len(non_null)'',
    ''    if unique_ratio < 0.5:'',
    ''        return 'categorical'' @ [CHR 0x27],
    ''    return 'string'' @ [CHR 0x27],
    '''',
    '''',
    ''def clean_data(input_csv, output_csv='cleaned_data.csv'):'',
    ''    """'',
    ''    Main cleaning function that applies all operations.'',
    ''    """'',
    ''    print("Loading CSV...")'',
    ''    df = pd.read_csv(input_csv)'',
    ''    original_rows = len(df)'',
    ''    '',
    ''    # Step 1: Trim and normalize strings'',
    ''    print("Step 1: Trimming and normalizing strings...")'',
    ''    string_columns = df.select_dtypes(include=['object']).columns'',
    ''    for col in string_columns:'',
    ''        df[col] = df[col].apply('',
    ''            lambda x: clean_string(x) if isinstance(x, str) else x'',
    ''        )'',
    ''    '',
    ''    # Step 2: Fix dates'',
    ''    print("Step 2: Fixing date formats...")'',
    ''    for col in df.columns:'',
    ''        if detect_column_type(df[col]) == 'date':'',
    ''            try:'',
    ''                converted = pd.to_datetime(df[col], errors='coerce', infer_datetime_format=True)'',
    ''                success_rate = converted.notna().sum() / len(df)'',
    ''                if success_rate > 0.7:'',
    ''                    df[col] = converted.dt.strftime('%Y-%m-%d')'',
    ''            except:'',
    ''                pass'',
    ''    '',
    ''    # Step 3: Handle missing values'',
    ''    print("Step 3: Handling missing values...")'',
    ''    for col in df.columns:'',
    ''        missing_count = df[col].isna().sum()'',
    ''        if missing_count > 0:'',
    ''            col_type = detect_column_type(df[col])'',
    ''            if col_type == 'numeric':'',
    ''                median_val = df[col].median()'',
    ''                if not pd.isna(median_val):'',
    ''                    df[col].fillna(median_val, inplace=True)'',
    ''            elif col_type == 'categorical':'',
    ''                mode_val = df[col].mode()'',
    ''                if len(mode_val) > 0:'',
    ''                    df[col].fillna(mode_val[0], inplace=True)'',
    ''    '',
    ''    # Step 4: Remove duplicates'',
    ''    print("Step 4: Removing duplicates...")'',
    ''    duplicates_before = len(df)'',
    ''    df = df.drop_duplicates(keep='first')'',
    ''    print(f"Removed {duplicates_before - len(df)} duplicates")'',
    ''    '',
    ''    # Step 5: Detect and replace outliers'',
    ''    print("Step 5: Handling outliers (IQR method)...")'',
    ''    numeric_columns = df.select_dtypes(include=[np.number]).columns'',
    ''    for col in numeric_columns:'',
    ''        Q1 = df[col].quantile(0.25)'',
    ''        Q3 = df[col].quantile(0.75)'',
    ''        IQR = Q3 - Q1'',
    ''        lower_bound = Q1 - 1.5 * IQR'',
    ''        upper_bound = Q3 + 1.5 * IQR'',
    ''        outlier_mask = (df[col] < lower_bound) | (df[col] > upper_bound)'',
    ''        if outlier_mask.sum() > 0:'',
    ''            median_val = df[col].median()'',
    ''            df.loc[outlier_mask, col] = median_val'',
    ''    '',
    ''    # Save cleaned CSV'',
    ''    print(f"Saving cleaned data to {output_csv}...")'',
    ''    df.to_csv(output_csv, index=False)'',
    ''    '',
    ''    print(f"'' @ [CHR 0x5C] @ ''nCleaning Summary:")'',
    ''    print(f"  Original rows: {original_rows}")'',
    ''    print(f"  Cleaned rows: {len(df)}")'',
    ''    print(f"  Rows removed: {original_rows - len(df)}")'',
    ''    print(f"  Columns: {len(df.columns)}")'',
    '''',
    '''',
    ''if __name__ == "__main__":'',
    ''    # Usage: python clean_data.py <input_csv> [output_csv]'',
    ''    import sys'',
    ''    if len(sys.argv) < 2:'',
    ''        print("Usage: python clean_data.py <input_csv> [output_csv]")'',
    ''        sys.exit(1)'',
    ''    '',
    ''    input_file = sys.argv[1]'',
    ''    output_file = sys.argv[2] if len(sys.argv) > 2 else 'cleaned_data.csv'' @ [CHR 0x27],
    ''    '',
    ''    clean_data(input_file, output_file)'']\<close>

definition script :: string where
  "script = concat (map (\<lambda>l. l @ [CHR 0x0A]) script_lines)"

definition generate_python_script :: "(string \<times> string) list \<Rightarrow> string list \<Rightarrow> string" where
  "generate_python_script cleaning_steps original_columns = script"

section \<open>The pandas operations the pipeline calls\<close>

text \<open>
  What the parsers of pandas accept is not part of the repository: the parsers are
  parameters of the model. \<open>parse_numeric\<close> is \<open>pd.to_numeric(errors='coerce')\<close> on one
  text value, \<open>parse_datetime\<close> is \<open>pd.to_datetime(errors='coerce')\<close> on one text value
  of a given column (the column is an argument, since pandas may infer one format for
  the whole column), \<open>parse_datetime_infer\<close> is the same call with
  \<open>infer_datetime_format=True\<close>, and \<open>epoch_datetime\<close> is \<open>pd.to_datetime\<close> on a number.
  A timestamp keeps the calendar date and the UTC offset in minutes, if the text gave
  one: the date is what \<open>strftime('%Y-%m-%d')\<close> renders, and the offsets decide whether
  the parsed column is a datetime series.
\<close>

datatype timestamp = Timestamp (year: nat) (month: nat) (day: nat) (utc_offset: "int option")

record pandas =
  parse_numeric :: "string \<Rightarrow> real option"
  parse_datetime :: "string option list \<Rightarrow> string \<Rightarrow> timestamp option"
  parse_datetime_infer :: "string option list \<Rightarrow> string \<Rightarrow> timestamp option"
  epoch_datetime :: "real \<Rightarrow> timestamp option"

fun to_numeric :: "pandas \<Rightarrow> column \<Rightarrow> real option list" where
  "to_numeric P (NumCol xs) = xs"
| "to_numeric P (ObjCol ss) = map (\<lambda>s. Option.bind s (parse_numeric P)) ss"

fun to_datetime :: "pandas \<Rightarrow> column \<Rightarrow> timestamp option list" where
  "to_datetime P (NumCol xs) = map (\<lambda>x. Option.bind x (epoch_datetime P)) xs"
| "to_datetime P (ObjCol ss) = map (\<lambda>s. Option.bind s (parse_datetime P ss)) ss"

fun to_datetime_infer :: "pandas \<Rightarrow> column \<Rightarrow> timestamp option list" where
  "to_datetime_infer P (NumCol xs) = map (\<lambda>x. Option.bind x (epoch_datetime P)) xs"
| "to_datetime_infer P (ObjCol ss) = map (\<lambda>s. Option.bind s (parse_datetime_infer P ss)) ss"

text \<open>
  \<open>pd.to_datetime\<close> returns a datetime series when the parsed values carry one UTC
  offset, or none at all. When the offsets are mixed it returns a series of objects, and
  the accessor \<open>.dt\<close> raises on it.
\<close>

definition datetimelike :: "timestamp option list \<Rightarrow> bool" where
  "datetimelike converted = (length (remdups (map utc_offset (dropna converted))) \<le> 1)"

definition zero_pad :: "nat \<Rightarrow> nat \<Rightarrow> string" where
  "zero_pad w n = replicate (w - length (str_nat n)) (CHR ''0'') @ str_nat n"

text \<open>\<open>strftime('%Y-%m-%d')\<close>.\<close>

definition strftime_ymd :: "timestamp \<Rightarrow> string" where
  "strftime_ymd t = zero_pad 4 (year t) @ ''-'' @ zero_pad 2 (month t) @ ''-'' @ zero_pad 2 (day t)"

text \<open>\<open>len(series.dropna())\<close> and \<open>len(series.dropna().unique())\<close>.\<close>

fun count_non_null :: "column \<Rightarrow> nat" where
  "count_non_null (NumCol xs) = length (dropna xs)"
| "count_non_null (ObjCol ss) = length (dropna ss)"

fun nunique :: "column \<Rightarrow> nat" where
  "nunique (NumCol xs) = length (remdups (dropna xs))"
| "nunique (ObjCol ss) = length (remdups (dropna ss))"

text \<open>\<open>Series.median\<close>: absent values are skipped; no value at all gives no median.\<close>

definition median :: "real option list \<Rightarrow> real option" where
  "median xs =
    (let s = sort (dropna xs); n = length s in
     if n = 0 then None
     else if odd n then Some (s ! (n div 2))
     else Some ((s ! (n div 2 - 1) + s ! (n div 2)) / 2))"

text \<open>
  \<open>Series.mode\<close>: the most frequent values among the non-absent ones, in ascending
  order; the program reads its first entry.
\<close>

definition max_count :: "'a list \<Rightarrow> nat" where
  "max_count vs = fold max (map (count_list vs) vs) 0"

definition mode :: "('a :: linorder) option list \<Rightarrow> 'a list" where
  "mode xs = (let vs = dropna xs in sort (remdups (filter (\<lambda>v. count_list vs v = max_count vs) vs)))"

definition fillna :: "'a \<Rightarrow> 'a option list \<Rightarrow> 'a option list" where
  "fillna v xs = map (\<lambda>x. case x of None \<Rightarrow> Some v | Some y \<Rightarrow> Some y) xs"

text \<open>\<open>fillna(method="ffill")\<close> and \<open>fillna(method="bfill")\<close>.\<close>

fun ffill_from :: "'a option \<Rightarrow> 'a option list \<Rightarrow> 'a option list" where
  "ffill_from prev [] = []"
| "ffill_from prev (None # xs) = prev # ffill_from prev xs"
| "ffill_from prev (Some v # xs) = Some v # ffill_from (Some v) xs"

definition ffill :: "'a option list \<Rightarrow> 'a option list" where
  "ffill xs = ffill_from None xs"

definition bfill :: "'a option list \<Rightarrow> 'a option list" where
  "bfill xs = rev (ffill (rev xs))"

text \<open>
  \<open>Series.quantile(q)\<close> with the default linear interpolation: absent values are
  skipped, the position \<open>q * (n - 1)\<close> in the sorted values is interpolated between its
  two neighbours.
\<close>

definition quantile :: "real \<Rightarrow> real option list \<Rightarrow> real option" where
  "quantile q xs =
    (let s = sort (dropna xs); n = length s in
     if n = 0 then None
     else let pos = q * of_nat (n - 1);
              lo = nat \<lfloor>pos\<rfloor>;
              hi = min (lo + 1) (n - 1);
              frac = pos - of_nat lo
          in Some (s ! lo + (s ! hi - s ! lo) * frac))"

text \<open>
  \<open>DataFrame.drop_duplicates(keep='first')\<close>: a row is dropped when an earlier row has
  the same value in every column; two absent values count as the same value.
\<close>

definition row :: "dataset \<Rightarrow> nat \<Rightarrow> val list" where
  "row df i = map (\<lambda>(name, c). cells c ! i) df"

definition rows :: "dataset \<Rightarrow> val list list" where
  "rows df = map (row df) [0..<len_df df]"

fun duplicated :: "'a list \<Rightarrow> 'a list \<Rightarrow> bool list" where
  "duplicated seen [] = []"
| "duplicated seen (r # rs) = (r \<in> set seen) # duplicated (r # seen) rs"

definition select :: "bool list \<Rightarrow> 'a list \<Rightarrow> 'a list" where
  "select keep xs = map snd (filter fst (zip keep xs))"

fun take_rows :: "bool list \<Rightarrow> column \<Rightarrow> column" where
  "take_rows keep (NumCol xs) = NumCol (select keep xs)"
| "take_rows keep (ObjCol ss) = ObjCol (select keep ss)"

definition drop_duplicates :: "dataset \<Rightarrow> dataset" where
  "drop_duplicates df =
    (let keep = map Not (duplicated [] (rows df))
     in map (\<lambda>(name, c). (name, take_rows keep c)) df)"

text \<open>A data frame is rectangular: every column has \<open>len(df)\<close> entries.\<close>

definition rectangular :: "dataset \<Rightarrow> bool" where
  "rectangular df = (\<forall>(name, c) \<in> set df. col_len c = len_df df)"

text \<open>
  Elementwise \<open>!=\<close> of two object columns, as pandas computes it: a position where
  either side is absent compares unequal.
\<close>

definition series_ne :: "val \<Rightarrow> val \<Rightarrow> bool" where
  "series_ne a b = (isna a \<or> isna b \<or> a \<noteq> b)"

fun is_object :: "column \<Rightarrow> bool" where
  "is_object (ObjCol ss) = True"
| "is_object (NumCol xs) = False"

text \<open>
  A loop \<open>for col in ...\<close> of a stage reads and writes the column it visits and adds to
  one counter: the columns are mapped, the counts summed.
\<close>

definition for_columns :: "(column \<Rightarrow> column \<times> nat) \<Rightarrow> dataset \<Rightarrow> dataset \<times> nat" where
  "for_columns f df =
    (map (\<lambda>(name, c). (name, fst (f c))) df, sum_list (map (\<lambda>(name, c). snd (f c)) df))"

section \<open>The column type classifier\<close>

datatype coltype = TNumeric | TDate | TCategorical | TString | TUnknown

text \<open>\<open>detect_column_type\<close> of utils.py (the generated script carries the same function).\<close>

definition numeric_test :: "pandas \<Rightarrow> column \<Rightarrow> bool" where
  "numeric_test P series =
    (real (notna_sum (to_numeric P series)) > real (count_non_null series) * 0.8)"

definition date_test :: "pandas \<Rightarrow> column \<Rightarrow> bool" where
  "date_test P series =
    (real (notna_sum (to_datetime P series)) > real (count_non_null series) * 0.8)"

definition unique_ratio :: "column \<Rightarrow> real" where
  "unique_ratio series = real (nunique series) / real (count_non_null series)"

definition detect_column_type :: "pandas \<Rightarrow> column \<Rightarrow> coltype" where
  "detect_column_type P series =
    (if count_non_null series = 0 then TUnknown
     else if numeric_test P series then TNumeric
     else if date_test P series then TDate
     else if unique_ratio series < 0.5 then TCategorical
     else TString)"

section \<open>The stages of the pipeline, on a data frame\<close>

subsection \<open>Step 1: trim and normalize strings\<close>

text \<open>\<open>df[col].apply(lambda x: clean_string(x) if isinstance(x, str) else x)\<close>.\<close>

fun apply_clean_string :: "column \<Rightarrow> column" where
  "apply_clean_string (ObjCol ss) = ObjCol (map (map_option clean_text) ss)"
| "apply_clean_string (NumCol xs) = NumCol xs"

text \<open>\<open>(original != df[col]).sum()\<close>.\<close>

definition ne_sum :: "column \<Rightarrow> column \<Rightarrow> nat" where
  "ne_sum original new = length (filter (\<lambda>(a, b). series_ne a b) (zip (cells original) (cells new)))"

definition trim_col :: "column \<Rightarrow> column \<times> nat" where
  "trim_col c =
    (if is_object c then
       let original = c;
           c' = apply_clean_string c;
           changes = ne_sum original c'
       in (c', if changes > 0 then changes else 0)
     else (c, 0))"

definition trim_df :: "dataset \<Rightarrow> dataset \<times> nat" where
  "trim_df df = for_columns trim_col df"

subsection \<open>Step 2: fix dates\<close>

text \<open>
  The conversion stands in a \<open>try\<close> whose handler leaves the column as it is. Two steps
  of the body can raise: the division by \<open>len(df)\<close> on an empty frame, and
  \<open>converted.dt.strftime\<close> when the parsed column is not a datetime series. Both raise
  before the column is assigned and before the counter is incremented.
\<close>

definition fix_dates_col :: "pandas \<Rightarrow> nat \<Rightarrow> column \<Rightarrow> column \<times> nat" where
  "fix_dates_col P len c =
    (if detect_column_type P c = TDate then
       let converted = to_datetime_infer P c in
       if len = 0 then (c, 0)
       else let success_rate = real (notna_sum converted) / real len in
            if success_rate > 0.7
            then (if datetimelike converted
                  then (ObjCol (map (map_option strftime_ymd) converted), 1)
                  else (c, 0))
            else (c, 0)
     else (c, 0))"

definition fix_dates_df :: "pandas \<Rightarrow> dataset \<Rightarrow> dataset \<times> nat" where
  "fix_dates_df P df = for_columns (fix_dates_col P (len_df df)) df"

text \<open>The condition under which step 2 rewrites a column.\<close>

definition date_converts :: "pandas \<Rightarrow> nat \<Rightarrow> column \<Rightarrow> bool" where
  "date_converts P len c =
    (detect_column_type P c = TDate
     \<and> real (notna_sum (to_datetime_infer P c)) / real len > 0.7
     \<and> datetimelike (to_datetime_infer P c))"

subsection \<open>Step 3: handle missing values\<close>

definition handle_missing_col :: "pandas \<Rightarrow> column \<Rightarrow> column \<times> nat" where
  "handle_missing_col P c =
    (let missing_count = isna_sum c in
     if missing_count = 0 then (c, 0)
     else case c of
       NumCol xs \<Rightarrow>
         (let numeric_series = to_numeric P c in
          case median numeric_series of
            Some median_val \<Rightarrow> (NumCol (fillna median_val numeric_series), missing_count)
          | None \<Rightarrow>
              (case mode xs of
                 mode_val # others \<Rightarrow> (NumCol (fillna mode_val xs), missing_count)
               | [] \<Rightarrow> (c, 0)))
     | ObjCol ss \<Rightarrow>
         (let col_type = detect_column_type P c in
          if col_type = TDate then (ObjCol (bfill (ffill ss)), missing_count)
          else case mode ss of
                 mode_val # others \<Rightarrow> (ObjCol (fillna mode_val ss), missing_count)
               | [] \<Rightarrow> (ObjCol (fillna '''' ss), missing_count)))"

definition handle_missing_df :: "pandas \<Rightarrow> dataset \<Rightarrow> dataset \<times> nat" where
  "handle_missing_df P df = for_columns (handle_missing_col P) df"

subsection \<open>Step 4: remove duplicates\<close>

definition remove_duplicates_df :: "dataset \<Rightarrow> dataset \<times> nat" where
  "remove_duplicates_df df =
    (let initial_rows = len_df df;
         df' = drop_duplicates df
     in (df', initial_rows - len_df df'))"

subsection \<open>Step 5: detect and replace outliers\<close>

definition outlier_mask :: "real \<Rightarrow> real \<Rightarrow> real option list \<Rightarrow> bool list" where
  "outlier_mask lower_bound upper_bound xs =
    map (\<lambda>x. case x of None \<Rightarrow> False | Some v \<Rightarrow> v < lower_bound \<or> v > upper_bound) xs"

definition assign_where :: "bool list \<Rightarrow> 'a \<Rightarrow> 'a list \<Rightarrow> 'a list" where
  "assign_where keep v xs = map (\<lambda>(m, x). if m then v else x) (zip keep xs)"

definition iqr_bounds :: "real option list \<Rightarrow> (real \<times> real) option" where
  "iqr_bounds xs =
    (case (quantile 0.25 xs, quantile 0.75 xs) of
       (Some Q1, Some Q3) \<Rightarrow>
         (let IQR = Q3 - Q1;
              lower_bound = Q1 - 1.5 * IQR;
              upper_bound = Q3 + 1.5 * IQR
          in Some (lower_bound, upper_bound))
     | other \<Rightarrow> None)"

definition outliers_col :: "column \<Rightarrow> column \<times> nat" where
  "outliers_col c =
    (case c of
       ObjCol ss \<Rightarrow> (c, 0)
     | NumCol xs \<Rightarrow>
         (case iqr_bounds xs of
            Some (lower_bound, upper_bound) \<Rightarrow>
              (let om = outlier_mask lower_bound upper_bound xs;
                   outlier_count = length (filter (\<lambda>b. b) om)
               in if outlier_count > 0
                  then (NumCol (assign_where om (median xs) xs), outlier_count)
                  else (c, 0))
          | None \<Rightarrow> (c, 0)))"

definition outliers_df :: "dataset \<Rightarrow> dataset \<times> nat" where
  "outliers_df df = for_columns outliers_col df"

section \<open>The pipeline\<close>

text \<open>
  \<open>DataCleaningPipeline\<close> of cleaning_logic.py: the step log, the two frames and the
  summary counters. A step record is its name and its description. \<open>pd.read_csv\<close> is
  outside the repository: its result, a frame or the message of the exception it raised,
  is the input of \<open>load_csv\<close>.
\<close>

record counters =
  original_rows :: int
  cleaned_rows :: int
  rows_removed :: int
  columns :: int
  missing_values_handled :: int
  outliers_replaced :: int
  date_columns_fixed :: int
  duplicates_removed :: int

record pipeline =
  cleaning_steps :: "(string \<times> string) list"
  original_df :: dataset
  cleaned_df :: dataset
  summary :: counters

datatype error = Exception string | TypeError

definition new_pipeline :: pipeline where
  "new_pipeline =
    \<lparr>cleaning_steps = [], original_df = [], cleaned_df = [],
     summary = \<lparr>original_rows = 0, cleaned_rows = 0, rows_removed = 0, columns = 0,
                missing_values_handled = 0, outliers_replaced = 0, date_columns_fixed = 0,
                duplicates_removed = 0\<rparr>\<rparr>"

definition load_csv :: "pipeline \<Rightarrow> string + dataset \<Rightarrow> error + pipeline" where
  "load_csv self file =
    (case file of
       Inl e \<Rightarrow> Inl (Exception (''Error loading CSV: '' @ e))
     | Inr df \<Rightarrow>
         Inr (self\<lparr>original_df := df, cleaned_df := df,
                   summary := (summary self)\<lparr>original_rows := int (len_df df), columns := int (length df)\<rparr>,
                   cleaning_steps := cleaning_steps self @
                     [(''load_csv'', ''Loaded CSV with '' @ str_nat (len_df df) @ '' rows and ''
                        @ str_nat (length df) @ '' columns'')]\<rparr>))"

definition trim_and_normalize_strings :: "pipeline \<Rightarrow> pipeline" where
  "trim_and_normalize_strings self =
    (let (df, trimmed_count) = trim_df (cleaned_df self) in
     self\<lparr>cleaned_df := df,
          cleaning_steps := cleaning_steps self @
            [(''trim_and_normalize'', ''Trimmed and normalized '' @ str_nat trimmed_count @ '' string values'')]\<rparr>)"

definition fix_dates :: "pandas \<Rightarrow> pipeline \<Rightarrow> pipeline" where
  "fix_dates P self =
    (let (df, fixed) = fix_dates_df P (cleaned_df self) in
     self\<lparr>cleaned_df := df,
          summary := (summary self)\<lparr>date_columns_fixed := int fixed\<rparr>,
          cleaning_steps := cleaning_steps self @
            [(''fix_dates'', ''Fixed '' @ str_nat fixed @ '' date columns to YYYY-MM-DD format'')]\<rparr>)"

definition handle_missing_values :: "pandas \<Rightarrow> pipeline \<Rightarrow> pipeline" where
  "handle_missing_values P self =
    (let (df, missing_handled) = handle_missing_df P (cleaned_df self) in
     self\<lparr>cleaned_df := df,
          summary := (summary self)\<lparr>missing_values_handled := int missing_handled\<rparr>,
          cleaning_steps := cleaning_steps self @
            [(''handle_missing'', ''Handled '' @ str_nat missing_handled @ '' missing values'')]\<rparr>)"

definition remove_duplicates :: "pipeline \<Rightarrow> pipeline" where
  "remove_duplicates self =
    (let (df, removed) = remove_duplicates_df (cleaned_df self) in
     self\<lparr>cleaned_df := df,
          summary := (summary self)\<lparr>duplicates_removed := int removed\<rparr>,
          cleaning_steps := cleaning_steps self @
            [(''remove_duplicates'', ''Removed '' @ str_nat removed @ '' duplicate rows'')]\<rparr>)"

definition detect_and_replace_outliers :: "pipeline \<Rightarrow> pipeline" where
  "detect_and_replace_outliers self =
    (let (df, replaced) = outliers_df (cleaned_df self) in
     self\<lparr>cleaned_df := df,
          summary := (summary self)\<lparr>outliers_replaced := int replaced\<rparr>,
          cleaning_steps := cleaning_steps self @
            [(''detect_outliers'', ''Detected and replaced '' @ str_nat replaced @ '' outliers using IQR method'')]\<rparr>)"

definition finalize :: "pipeline \<Rightarrow> pipeline" where
  "finalize self =
    (let s1 = (summary self)\<lparr>cleaned_rows := int (len_df (cleaned_df self))\<rparr>;
         s2 = s1\<lparr>rows_removed := original_rows s1 - cleaned_rows s1\<rparr>
     in self\<lparr>summary := s2\<rparr>)"

definition run_stages :: "pandas \<Rightarrow> pipeline \<Rightarrow> pipeline" where
  "run_stages P self =
    finalize (detect_and_replace_outliers (remove_duplicates
      (handle_missing_values P (fix_dates P (trim_and_normalize_strings self)))))"

text \<open>The frames of a run: the frame after step 3, and the frame after step 5.\<close>

definition stage_frames :: "pandas \<Rightarrow> dataset \<Rightarrow> dataset \<times> dataset" where
  "stage_frames P df =
    (let imputed = fst (handle_missing_df P (fst (fix_dates_df P (fst (trim_df df)))))
     in (imputed, fst (outliers_df (drop_duplicates imputed))))"

definition run_pipeline ::
  "pandas \<Rightarrow> string + dataset \<Rightarrow> error + dataset \<times> (string \<times> string) list \<times> counters" where
  "run_pipeline P file =
    (case load_csv new_pipeline file of
       Inl e \<Rightarrow> Inl e
     | Inr loaded \<Rightarrow>
         (let self = run_stages P loaded
          in Inr (cleaned_df self, cleaning_steps self, summary self)))"

section \<open>The generated script\<close>

text \<open>
  \<open>clean_data\<close> of the script that \<open>generate_python_script\<close> returns. Its
  \<open>clean_string\<close> and \<open>detect_column_type\<close> are the ones of utils.py; steps 1, 2, 4 and 5
  are the loops of the pipeline without the counters. In step 3 the median of an object
  column that holds text raises, and nothing in the script catches it.
\<close>

definition script_trim :: "dataset \<Rightarrow> dataset" where
  "script_trim df = map (\<lambda>(name, c). (name, if is_object c then apply_clean_string c else c)) df"

definition script_missing_col :: "pandas \<Rightarrow> column \<Rightarrow> error + column" where
  "script_missing_col P c =
    (let missing_count = isna_sum c in
     if missing_count > 0 then
       (let col_type = detect_column_type P c in
        if col_type = TNumeric then
          (case c of
             NumCol xs \<Rightarrow>
               (case median xs of
                  Some median_val \<Rightarrow> Inr (NumCol (fillna median_val xs))
                | None \<Rightarrow> Inr c)
           | ObjCol ss \<Rightarrow> Inl TypeError)
        else if col_type = TCategorical then
          (case c of
             NumCol xs \<Rightarrow>
               (case mode xs of mode_val # others \<Rightarrow> Inr (NumCol (fillna mode_val xs)) | [] \<Rightarrow> Inr c)
           | ObjCol ss \<Rightarrow>
               (case mode ss of mode_val # others \<Rightarrow> Inr (ObjCol (fillna mode_val ss)) | [] \<Rightarrow> Inr c))
        else Inr c)
     else Inr c)"

fun script_missing :: "pandas \<Rightarrow> dataset \<Rightarrow> error + dataset" where
  "script_missing P [] = Inr []"
| "script_missing P ((name, c) # rest) =
    (case script_missing_col P c of
       Inl e \<Rightarrow> Inl e
     | Inr c' \<Rightarrow>
         (case script_missing P rest of
            Inl e \<Rightarrow> Inl e
          | Inr rest' \<Rightarrow> Inr ((name, c') # rest')))"

definition script_clean_data :: "pandas \<Rightarrow> string + dataset \<Rightarrow> error + dataset" where
  "script_clean_data P file =
    (case file of
       Inl e \<Rightarrow> Inl (Exception e)
     | Inr df \<Rightarrow>
         (let df1 = script_trim df;
              df2 = fst (fix_dates_df P df1)
          in case script_missing P df2 of
               Inl e \<Rightarrow> Inl e
             | Inr df3 \<Rightarrow>
                 (let df4 = drop_duplicates df3;
                      df5 = fst (outliers_df df4)
                  in Inr df5)))"

section \<open>The report\<close>

text \<open>
  \<open>generate_ai_report\<close> of ai_report.py. The summary it receives is a dictionary read
  with \<open>get\<close> and a default. The two providers are outside the repository: a call returns
  the narrative or raises, and the environment holds the keys. The prompt is kept as the
  values it interpolates. The rendering of the percentage with one decimal is the
  parameter \<open>fmt\<close>.
\<close>

definition dict_get :: "(string \<rightharpoonup> int) \<Rightarrow> string \<Rightarrow> int \<Rightarrow> int" where
  "dict_get d k dflt = (case d k of None \<Rightarrow> dflt | Some v \<Rightarrow> v)"

definition join_lines :: "string list \<Rightarrow> string" where
  "join_lines ls = concat (case ls of [] \<Rightarrow> [] | l # rest \<Rightarrow> l # map (\<lambda>x. CHR 0x0A # x) rest)"

record prompt =
  original_shape :: "nat \<times> nat"
  original_column_names :: "string list"
  original_dtypes :: "(string \<times> bool) list"
  original_missing :: nat
  steps_description :: string
  cleaned_shape :: "nat \<times> nat"
  cleaned_missing :: nat
  summary_values :: "int list"

definition isnull_sum :: "dataset \<Rightarrow> nat" where
  "isnull_sum df = sum_list (map (\<lambda>(name, c). isna_sum c) df)"

definition build_prompt ::
  "dataset \<Rightarrow> dataset \<Rightarrow> (string \<times> string) list \<Rightarrow> (string \<rightharpoonup> int) \<Rightarrow> prompt" where
  "build_prompt odf cdf steps summ =
    \<lparr>original_shape = (len_df odf, length odf),
     original_column_names = take 10 (map fst odf),
     original_dtypes = take 10 (map (\<lambda>(name, c). (name, is_object c)) odf),
     original_missing = isnull_sum odf,
     steps_description = join_lines (map (\<lambda>(step, description). ''- '' @ description) steps),
     cleaned_shape = (len_df cdf, length cdf),
     cleaned_missing = isnull_sum cdf,
     summary_values =
       [dict_get summ ''rows_removed'' 0, dict_get summ ''duplicates_removed'' 0,
        dict_get summ ''missing_values_handled'' 0, dict_get summ ''outliers_replaced'' 0,
        dict_get summ ''date_columns_fixed'' 0]\<rparr>"

record world =
  getenv :: "string \<Rightarrow> string option"
  openai_create :: "string \<Rightarrow> prompt \<Rightarrow> string + string"
  groq_create :: "string \<Rightarrow> prompt \<Rightarrow> string + string"

definition call_openai :: "world \<Rightarrow> prompt \<Rightarrow> string + string" where
  "call_openai W p =
    (case getenv W ''OPENAI_API_KEY'' of
       None \<Rightarrow> Inl ''OPENAI_API_KEY not set''
     | Some api_key \<Rightarrow>
         if api_key = [] then Inl ''OPENAI_API_KEY not set'' else openai_create W api_key p)"

definition call_groq :: "world \<Rightarrow> prompt \<Rightarrow> string + string" where
  "call_groq W p =
    (case getenv W ''GROQ_API_KEY'' of
       None \<Rightarrow> Inl ''GROQ_API_KEY not set''
     | Some api_key \<Rightarrow>
         if api_key = [] then Inl ''GROQ_API_KEY not set'' else groq_create W api_key p)"

text \<open>The percentage inside \<open>_fallback_report\<close>.\<close>

definition percent_removed :: "(string \<rightharpoonup> int) \<Rightarrow> real" where
  "percent_removed summ =
    real_of_int (dict_get summ ''rows_removed'' 0)
      / real_of_int (max (dict_get summ ''original_rows'' 1) 1) * 100"

definition fallback_lines :: "(real \<Rightarrow> string) \<Rightarrow> (string \<rightharpoonup> int) \<Rightarrow> string list" where
  "fallback_lines fmt summ =
    ['''',
     ''## Data Cleaning Report'',
     '''',
     ''### Summary of Operations'',
     ''- **Original Records:** '' @ str_int (dict_get summ ''original_rows'' 0),
     ''- **Cleaned Records:** '' @ str_int (dict_get summ ''cleaned_rows'' 0),
     ''- **Records Removed:** '' @ str_int (dict_get summ ''rows_removed'' 0)
        @ '' ('' @ fmt (percent_removed summ) @ ''%)'',
     '''',
     ''### Data Quality Improvements'',
     ''- **Duplicate Rows Removed:** '' @ str_int (dict_get summ ''duplicates_removed'' 0),
     ''- **Missing Values Fixed:** '' @ str_int (dict_get summ ''missing_values_handled'' 0),
     ''- **Outliers Replaced:** '' @ str_int (dict_get summ ''outliers_replaced'' 0),
     ''- **Date Formats Fixed:** '' @ str_int (dict_get summ ''date_columns_fixed'' 0),
     '''',
     ''### Recommendations'',
     ''1. **Review the cleaned data** to ensure quality meets your requirements'',
     ''2. **Validate date conversions** to confirm accuracy'',
     ''3. **Check categorical values** for consistency'',
     ''4. **Consider domain-specific rules** that may need additional cleaning'',
     '''']"

definition fallback_report :: "(real \<Rightarrow> string) \<Rightarrow> (string \<rightharpoonup> int) \<Rightarrow> string" where
  "fallback_report fmt summ = strip (join_lines (fallback_lines fmt summ))"

text \<open>The body of the \<open>try\<close>: the narrative, the fallback, or the exception raised.\<close>

definition try_generate ::
  "world \<Rightarrow> (real \<Rightarrow> string) \<Rightarrow> prompt \<Rightarrow> (string \<rightharpoonup> int) \<Rightarrow> string \<Rightarrow> string + string" where
  "try_generate W fmt p summ ai_provider =
    (if lower ai_provider = ''openai'' then call_openai W p
     else if lower ai_provider = ''groq'' then call_groq W p
     else Inr (fallback_report fmt summ))"

definition generate_ai_report ::
  "world \<Rightarrow> (real \<Rightarrow> string) \<Rightarrow> dataset \<Rightarrow> dataset \<Rightarrow> (string \<times> string) list
     \<Rightarrow> (string \<rightharpoonup> int) \<Rightarrow> string \<Rightarrow> string" where
  "generate_ai_report W fmt odf cdf steps summ ai_provider =
    (let p = build_prompt odf cdf steps summ in
     case try_generate W fmt p summ ai_provider of
       Inr report \<Rightarrow> report
     | Inl e \<Rightarrow> fallback_report fmt summ)"

section \<open>Instances of the parameters\<close>

text \<open>
  For the examples: a parser that reads a text of decimal digits as a number, a text
  \<open>YYYY-MM-DD\<close> as a date and a text \<open>YYYY-MM-DDTHH:MM:SS+HH:MM\<close> as a date with a UTC
  offset, and nothing else. The texts of the examples are of these forms or are plain
  words, which pandas reads as neither a number nor a date.
\<close>

definition digit_val :: "char \<Rightarrow> nat option" where
  "digit_val c = (let n = (of_char c :: nat) in if 48 \<le> n \<and> n \<le> 57 then Some (n - 48) else None)"

fun digits_nat :: "nat \<Rightarrow> string \<Rightarrow> nat option" where
  "digits_nat acc [] = Some acc"
| "digits_nat acc (c # cs) =
    (case digit_val c of None \<Rightarrow> None | Some d \<Rightarrow> digits_nat (10 * acc + d) cs)"

definition plain_numeric :: "string \<Rightarrow> real option" where
  "plain_numeric s = (if s = [] then None else map_option real (digits_nat 0 s))"

definition iso_date :: "string \<Rightarrow> timestamp option" where
  "iso_date s =
    (if length s = 10 \<and> s ! 4 = CHR ''-'' \<and> s ! 7 = CHR ''-'' then
       (case (digits_nat 0 (take 4 s), digits_nat 0 (take 2 (drop 5 s)), digits_nat 0 (drop 8 s)) of
          (Some y, Some m, Some d) \<Rightarrow>
            if 1 \<le> m \<and> m \<le> 12 \<and> 1 \<le> d \<and> d \<le> 31 then Some (Timestamp y m d None) else None
        | other \<Rightarrow> None)
     else None)"

definition iso_offset :: "string \<Rightarrow> int option" where
  "iso_offset s =
    (if length s = 15 \<and> s ! 0 = CHR ''T'' \<and> s ! 3 = CHR '':'' \<and> s ! 6 = CHR '':''
        \<and> (s ! 9 = CHR ''+'' \<or> s ! 9 = CHR ''-'') \<and> s ! 12 = CHR '':'' then
       (case (digits_nat 0 (take 2 (drop 1 s)), digits_nat 0 (take 2 (drop 4 s)),
              digits_nat 0 (take 2 (drop 7 s)), digits_nat 0 (take 2 (drop 10 s)),
              digits_nat 0 (drop 13 s)) of
          (Some h, Some mi, Some sec, Some oh, Some om) \<Rightarrow>
            if h < 24 \<and> mi < 60 \<and> sec < 60 \<and> oh < 24 \<and> om < 60
            then Some ((if s ! 9 = CHR ''-'' then - 1 else 1) * int (oh * 60 + om))
            else None
        | other \<Rightarrow> None)
     else None)"

definition iso_timestamp :: "string \<Rightarrow> timestamp option" where
  "iso_timestamp s =
    (case iso_date (take 10 s) of
       None \<Rightarrow> None
     | Some d \<Rightarrow>
         if length s = 10 then Some d
         else (case iso_offset (drop 10 s) of
                 None \<Rightarrow> None
               | Some off \<Rightarrow> Some (Timestamp (year d) (month d) (day d) (Some off))))"

definition plain_pandas :: pandas where
  "plain_pandas =
    \<lparr>parse_numeric = plain_numeric,
     parse_datetime = (\<lambda>series. iso_timestamp),
     parse_datetime_infer = (\<lambda>series. iso_timestamp),
     epoch_datetime = (\<lambda>x. Some (Timestamp 1970 1 1 None))\<rparr>"

text \<open>
  For the examples: a rendering with one decimal, a half rounded to the even digit. On
  the percentages of the examples Python's \<open>.1f\<close> gives the same text.
\<close>

definition round_half_even :: "real \<Rightarrow> int" where
  "round_half_even x =
    (let f = \<lfloor>x\<rfloor>; r = x - of_int f in
     if r < 0.5 then f else if r > 0.5 then f + 1 else if even f then f else f + 1)"

definition render_1f :: "real \<Rightarrow> string" where
  "render_1f x =
    (let n = round_half_even (\<bar>x\<bar> * 10);
         body = str_int (n div 10) @ ''.'' @ str_int (n mod 10)
     in if x < 0 \<and> n \<noteq> 0 then CHR ''-'' # body else body)"

section \<open>Auxiliary facts\<close>

lemma nunique_le: "nunique c \<le> count_non_null c"
  by (cases c) (simp_all add: length_remdups_leq)

lemma max_default: "max (dict_get summ k 1) 1 = max (dict_get summ k 0) (1 :: int)"
  by (simp add: dict_get_def split: option.split)

lemma length_for_columns: "length (fst (for_columns f df)) = length df"
  by (simp add: for_columns_def)

lemma nth_for_columns:
  "i < length df \<Longrightarrow> fst (for_columns f df) ! i = (fst (df ! i), fst (f (snd (df ! i))))"
  by (simp add: for_columns_def case_prod_beta)

lemma snd_for_columns: "snd (for_columns f df) = sum_list (map (\<lambda>(name, c). snd (f c)) df)"
  by (simp add: for_columns_def)

lemma isna_sum_NumCol: "isna_sum (NumCol xs) = 0 \<longleftrightarrow> None \<notin> set xs"
  by (auto simp: isna_sum_def isna_def filter_empty_conv split: option.splits) (metis not_None_eq)

lemma isna_sum_ObjCol: "isna_sum (ObjCol ss) = 0 \<longleftrightarrow> None \<notin> set ss"
  by (auto simp: isna_sum_def isna_def filter_empty_conv split: option.splits) (metis not_None_eq)

lemma fillna_no_None: "None \<notin> set (fillna v xs)"
  by (induction xs) (auto simp: fillna_def split: option.splits)

lemma dropna_Nil_iff: "dropna xs = [] \<longleftrightarrow> (\<forall>x \<in> set xs. x = None)"
  by (induction xs) (auto simp: dropna_def List.map_filter_simps split: option.splits)

lemma sort_Nil_iff: "sort xs = [] \<longleftrightarrow> xs = []"
  by (metis length_sort length_0_conv)

lemma median_Some:
  assumes "dropna xs \<noteq> []"
  shows "\<exists>m. median xs = Some m"
proof -
  from assms have ne: "\<not> length (sort (dropna xs)) = 0" by simp
  show ?thesis unfolding median_def Let_def
    by (simp only: ne if_False) (metis (full_types))
qed

lemma median_None_iff: "median xs = None \<longleftrightarrow> dropna xs = []"
proof (cases "dropna xs = []")
  case True
  then show ?thesis by (simp add: median_def)
next
  case False
  then show ?thesis using median_Some [OF False] by auto
qed

lemma ffill_from_Some: "None \<notin> set (ffill_from (Some v) xs)"
  by (induction "Some v" xs arbitrary: v rule: ffill_from.induct) auto

lemma length_ffill_from: "length (ffill_from p xs) = length xs"
  by (induction p xs rule: ffill_from.induct) auto

lemma last_ffill_from:
  "Some v \<in> set xs \<Longrightarrow> \<exists>w. last (ffill_from p xs) = Some w"
proof (induction p xs rule: ffill_from.induct)
  case (1 prev)
  then show ?case by simp
next
  case (2 prev xs)
  then have "Some v \<in> set xs" by simp
  with 2 obtain w where "last (ffill_from prev xs) = Some w" by blast
  moreover have "ffill_from prev xs \<noteq> []" using \<open>Some v \<in> set xs\<close> length_ffill_from [of prev xs]
    by (metis length_0_conv empty_iff list.set(1))
  ultimately show ?case by simp
next
  case (3 prev u xs)
  show ?case
  proof (cases xs)
    case Nil
    then show ?thesis by simp
  next
    case (Cons a list)
    have n: "None \<notin> set (ffill_from (Some u) xs)" by (rule ffill_from_Some)
    have ne: "ffill_from (Some u) xs \<noteq> []" using Cons length_ffill_from [of "Some u" xs] by auto
    then have "last (ffill_from (Some u) xs) \<in> set (ffill_from (Some u) xs)" by simp
    with n obtain w where "last (ffill_from (Some u) xs) = Some w"
      by (metis not_None_eq)
    with ne show ?thesis by simp
  qed
qed

lemma bfill_ffill_no_None:
  assumes "Some v \<in> set ss"
  shows "None \<notin> set (bfill (ffill ss))"
proof -
  let ?ys = "ffill ss"
  from last_ffill_from [OF assms, of None] obtain w where w: "last ?ys = Some w"
    unfolding ffill_def by blast
  have ne: "?ys \<noteq> []" using assms length_ffill_from [of None ss]
    unfolding ffill_def by (metis length_0_conv empty_iff list.set(1))
  then have r: "rev ?ys = Some w # rev (butlast ?ys)"
    using w by (metis append_butlast_last_id rev.simps(2) rev_rev_ident rev_swap)
  have "bfill ?ys = rev (ffill_from None (rev ?ys))"
    by (simp add: bfill_def ffill_def)
  also have "\<dots> = rev (Some w # ffill_from (Some w) (rev (butlast ?ys)))"
    by (simp only: r ffill_from.simps)
  finally show ?thesis using ffill_from_Some [of w "rev (butlast ?ys)"] by simp
qed

lemma count_non_null_pos_ObjCol: "count_non_null (ObjCol ss) > 0 \<Longrightarrow> \<exists>v. Some v \<in> set ss"
  by (induction ss) (auto simp: dropna_def List.map_filter_simps split: option.splits)

lemma detect_TDate_non_null: "detect_column_type P c = TDate \<Longrightarrow> count_non_null c > 0"
  by (auto simp: detect_column_type_def split: if_splits)

lemma handle_missing_col_fills:
  "isna_sum (fst (handle_missing_col P c)) = 0
   \<or> (count_non_null c = 0 \<and> \<not> is_object c \<and> fst (handle_missing_col P c) = c)"
proof (cases c)
  case (NumCol xs)
  show ?thesis
  proof (cases "median xs")
    case None
    then have "dropna xs = []" by (simp add: median_None_iff)
    then show ?thesis using NumCol None
      by (auto simp: handle_missing_col_def Let_def isna_sum_NumCol fillna_no_None split: list.splits)
  next
    case (Some m)
    then show ?thesis using NumCol
      by (auto simp: handle_missing_col_def Let_def isna_sum_NumCol fillna_no_None)
  qed
next
  case (ObjCol ss)
  show ?thesis
  proof (cases "detect_column_type P c = TDate")
    case True
    then obtain v where "Some v \<in> set ss"
      using detect_TDate_non_null count_non_null_pos_ObjCol ObjCol by blast
    then have "None \<notin> set (bfill (ffill ss))" by (rule bfill_ffill_no_None)
    then show ?thesis using ObjCol True
      by (auto simp: handle_missing_col_def Let_def isna_sum_ObjCol)
  next
    case False
    then show ?thesis using ObjCol
      by (auto simp: handle_missing_col_def Let_def isna_sum_ObjCol fillna_no_None split: list.splits)
  qed
qed

lemma count_non_null_le: "count_non_null c \<le> col_len c"
proof (cases c)
  case (NumCol xs)
  have "length (dropna xs) \<le> length xs"
    by (induction xs) (auto simp: dropna_def List.map_filter_simps split: option.splits)
  then show ?thesis using NumCol by (simp add: col_len_def)
next
  case (ObjCol ss)
  have "length (dropna ss) \<le> length ss"
    by (induction ss) (auto simp: dropna_def List.map_filter_simps split: option.splits)
  then show ?thesis using ObjCol by (simp add: col_len_def)
qed

lemma sum_list_indicator:
  "sum_list (map (\<lambda>x. if Q x then 1 else 0) xs) = length (filter Q xs)"
  by (induction xs) auto

lemma rectangular_date_len:
  assumes "rectangular df" and "(name, c) \<in> set df" and "detect_column_type P c = TDate"
  shows "len_df df > 0"
proof -
  have "count_non_null c > 0" using assms(3) by (rule detect_TDate_non_null)
  moreover have "col_len c = len_df df" using assms(1,2) by (auto simp: rectangular_def)
  ultimately show ?thesis using count_non_null_le [of c] by simp
qed

lemma fix_dates_col_cases:
  assumes "len > 0"
  shows "fix_dates_col P len c =
    (if date_converts P len c
     then (ObjCol (map (map_option strftime_ymd) (to_datetime_infer P c)), 1)
     else (c, 0))"
  using assms by (simp add: fix_dates_col_def date_converts_def Let_def)

lemma fix_dates_col_not_date:
  "detect_column_type P c \<noteq> TDate \<Longrightarrow> fix_dates_col P len c = (c, 0)"
  by (simp add: fix_dates_col_def)

lemma fix_dates_count:
  assumes "rectangular df"
  shows "snd (fix_dates_df P df) = length (filter (\<lambda>(name, c). date_converts P (len_df df) c) df)"
proof -
  have "snd (fix_dates_col P (len_df df) c) = (if date_converts P (len_df df) c then 1 else 0)"
    if "(name, c) \<in> set df" for name c
  proof (cases "detect_column_type P c = TDate")
    case True
    then have "len_df df > 0" using assms that by (rule rectangular_date_len [rotated 2])
    then show ?thesis by (simp add: fix_dates_col_cases)
  next
    case False
    then show ?thesis by (simp add: fix_dates_col_not_date date_converts_def)
  qed
  then have eq: "map (\<lambda>(name, c). snd (fix_dates_col P (len_df df) c)) df
      = map (\<lambda>x. if (\<lambda>(name, c). date_converts P (len_df df) c) x then 1 else 0) df"
    by (intro map_cong) auto
  have "snd (fix_dates_df P df) = sum_list (map (\<lambda>(name, c). snd (fix_dates_col P (len_df df) c)) df)"
    by (simp add: fix_dates_df_def snd_for_columns)
  also have "\<dots> = sum_list (map (\<lambda>x. if (\<lambda>(name, c). date_converts P (len_df df) c) x then 1 else 0) df)"
    by (simp only: eq)
  also have "\<dots> = length (filter (\<lambda>(name, c). date_converts P (len_df df) c) df)"
    by (rule sum_list_indicator)
  finally show ?thesis .
qed

lemma len_df_for_columns:
  assumes "\<And>c. col_len (fst (f c)) = col_len c"
  shows "len_df (fst (for_columns f df)) = len_df df"
  using assms by (cases df) (auto simp: len_df_def for_columns_def)

lemma col_len_trim_col: "col_len (fst (trim_col c)) = col_len c"
  by (cases c) (simp_all add: trim_col_def col_len_def Let_def)

lemma col_len_fix_dates_col: "col_len (fst (fix_dates_col P len c)) = col_len c"
  by (cases c) (simp_all add: fix_dates_col_def col_len_def Let_def)

lemma length_bfill: "length (bfill xs) = length xs"
  by (simp add: bfill_def ffill_def length_ffill_from)

lemma length_ffill: "length (ffill xs) = length xs"
  by (simp add: ffill_def length_ffill_from)

lemma col_len_handle_missing_col: "col_len (fst (handle_missing_col P c)) = col_len c"
  by (cases c)
     (auto simp: handle_missing_col_def col_len_def Let_def fillna_def length_bfill length_ffill
           split: option.splits list.splits)

lemma col_len_outliers_col: "col_len (fst (outliers_col c)) = col_len c"
  by (cases c)
     (auto simp: outliers_col_def col_len_def Let_def assign_where_def outlier_mask_def
           split: option.splits prod.splits)

lemma length_select: "length (select keep xs) \<le> length xs"
proof -
  have "length (filter fst (zip keep xs)) \<le> length (zip keep xs)" by (rule length_filter_le)
  then show ?thesis by (simp add: select_def)
qed

lemma len_df_drop_duplicates: "len_df (drop_duplicates df) \<le> len_df df"
proof (cases df)
  case Nil
  then show ?thesis by (simp add: drop_duplicates_def len_df_def)
next
  case (Cons p rest)
  obtain name c where p: "p = (name, c)" by (cases p)
  show ?thesis using Cons p
    by (cases c) (simp_all add: drop_duplicates_def len_df_def col_len_def Let_def length_select)
qed

lemma length_drop_duplicates: "length (drop_duplicates df) = length df"
  by (simp add: drop_duplicates_def Let_def)

lemma run_stages_cleaned_df:
  "cleaned_df (run_stages P self) = snd (stage_frames P (cleaned_df self))"
  by (simp add: run_stages_def stage_frames_def finalize_def detect_and_replace_outliers_def
      remove_duplicates_def remove_duplicates_df_def handle_missing_values_def fix_dates_def
      trim_and_normalize_strings_def Let_def case_prod_beta)

lemma run_stages_duplicates_removed:
  "duplicates_removed (summary (run_stages P self))
     = int (len_df (fst (stage_frames P (cleaned_df self)))
            - len_df (drop_duplicates (fst (stage_frames P (cleaned_df self)))))"
  by (simp add: run_stages_def stage_frames_def finalize_def detect_and_replace_outliers_def
      remove_duplicates_def remove_duplicates_df_def handle_missing_values_def fix_dates_def
      trim_and_normalize_strings_def Let_def case_prod_beta)

lemma run_stages_rows_removed:
  "rows_removed (summary (run_stages P self))
     = original_rows (summary self) - int (len_df (cleaned_df (run_stages P self)))"
  by (simp add: run_stages_def finalize_def detect_and_replace_outliers_def
      remove_duplicates_def remove_duplicates_df_def handle_missing_values_def fix_dates_def
      trim_and_normalize_strings_def Let_def case_prod_beta)

lemma run_stages_columns:
  "columns (summary (run_stages P self)) = columns (summary self)"
  by (simp add: run_stages_def finalize_def detect_and_replace_outliers_def
      remove_duplicates_def remove_duplicates_df_def handle_missing_values_def fix_dates_def
      trim_and_normalize_strings_def Let_def case_prod_beta)

lemma stage_frames_shape:
  "len_df (fst (stage_frames P df)) = len_df df
   \<and> len_df (snd (stage_frames P df)) = len_df (drop_duplicates (fst (stage_frames P df)))
   \<and> length (snd (stage_frames P df)) = length df"
  by (simp add: stage_frames_def Let_def trim_df_def fix_dates_df_def handle_missing_df_def
      outliers_df_def len_df_for_columns col_len_trim_col col_len_fix_dates_col
      col_len_handle_missing_col col_len_outliers_col length_for_columns length_drop_duplicates)

lemma run_pipeline_Inr:
  assumes "run_pipeline P (Inr df) = Inr (df', steps, s)"
  shows "length df' = length df
       \<and> len_df df' \<le> len_df df
       \<and> columns s = int (length df)
       \<and> duplicates_removed s = int (len_df df) - int (len_df df')
       \<and> rows_removed s = int (len_df df) - int (len_df df')"
proof -
  let ?loaded = "new_pipeline\<lparr>original_df := df, cleaned_df := df,
       summary := (summary new_pipeline)\<lparr>original_rows := int (len_df df), columns := int (length df)\<rparr>,
       cleaning_steps := cleaning_steps new_pipeline @
         [(''load_csv'', ''Loaded CSV with '' @ str_nat (len_df df) @ '' rows and ''
            @ str_nat (length df) @ '' columns'')]\<rparr>"
  have l: "load_csv new_pipeline (Inr df) = Inr ?loaded" by (simp add: load_csv_def)
  from assms have r: "df' = cleaned_df (run_stages P ?loaded)" "s = summary (run_stages P ?loaded)"
    by (simp_all add: run_pipeline_def l Let_def)
  have c: "cleaned_df ?loaded = df" by simp
  have sh: "len_df (fst (stage_frames P df)) = len_df df"
    "len_df (snd (stage_frames P df)) = len_df (drop_duplicates (fst (stage_frames P df)))"
    "length (snd (stage_frames P df)) = length df"
    using stage_frames_shape [of P df] by simp_all
  have le: "len_df (drop_duplicates (fst (stage_frames P df))) \<le> len_df (fst (stage_frames P df))"
    by (rule len_df_drop_duplicates)
  have 1: "df' = snd (stage_frames P df)" by (simp add: r run_stages_cleaned_df)
  have 2: "duplicates_removed s = int (len_df df) - int (len_df df')"
    using le by (simp add: r(2) 1 run_stages_duplicates_removed sh)
  have 3: "rows_removed s = int (len_df df) - int (len_df df')"
    by (simp add: r(2) run_stages_rows_removed 1 run_stages_cleaned_df)
  have 4: "columns s = int (length df)" by (simp add: r(2) run_stages_columns)
  show ?thesis using 1 2 3 4 sh le by simp
qed

lemma ne_sum_ObjCol:
  "ne_sum (ObjCol ss) (apply_clean_string (ObjCol ss))
     = length (filter (\<lambda>s. case s of None \<Rightarrow> True | Some t \<Rightarrow> clean_text t \<noteq> t) ss)"
  by (induction ss) (auto simp: ne_sum_def series_ne_def isna_def split: option.splits)

lemma trim_col_count:
  "snd (trim_col (ObjCol ss))
     = length (filter (\<lambda>s. case s of None \<Rightarrow> True | Some t \<Rightarrow> clean_text t \<noteq> t) ss)"
  by (simp add: trim_col_def Let_def ne_sum_ObjCol del: apply_clean_string.simps)

lemma cells_apply_clean_string: "cells (apply_clean_string c) = map clean_string (cells c)"
proof (cases c)
  case (NumCol xs)
  have "map clean_string (cells (NumCol xs)) = cells (NumCol xs)"
    by (induction xs) (auto split: option.splits)
  then show ?thesis using NumCol by simp
next
  case (ObjCol ss)
  have "cells (ObjCol (map (map_option clean_text) ss)) = map clean_string (cells (ObjCol ss))"
    by (induction ss) (auto split: option.splits)
  then show ?thesis using ObjCol by simp
qed

lemma isna_clean_string: "isna (clean_string v) = isna v"
  by (cases v) (simp_all add: isna_def)

lemma trim_col_cells: "cells (fst (trim_col c)) = map clean_string (cells c)"
proof (cases "is_object c")
  case True
  then show ?thesis by (simp add: trim_col_def Let_def cells_apply_clean_string)
next
  case False
  then obtain xs where "c = NumCol xs" by (cases c) auto
  then show ?thesis
    using cells_apply_clean_string [of c] by (simp add: trim_col_def)
qed

lemma trim_col_keeps_absence: "map isna (cells (fst (trim_col c))) = map isna (cells c)"
  by (simp add: trim_col_cells isna_clean_string comp_def)

lemma length_str_nat: "0 < k \<Longrightarrow> n < 10 ^ k \<Longrightarrow> length (str_nat n) \<le> k"
proof (induction k arbitrary: n)
  case 0
  then show ?case by simp
next
  case (Suc k)
  show ?case
  proof (cases "n < 10")
    case True
    then show ?thesis by (subst str_nat.simps) simp
  next
    case False
    with Suc.prems have k: "0 < k" by (cases k) auto
    from Suc.prems have "n div 10 < 10 ^ k" by (simp add: less_mult_imp_div_less mult.commute)
    with Suc.IH k have "length (str_nat (n div 10)) \<le> k" by blast
    then show ?thesis using False by (subst str_nat.simps) simp
  qed
qed

lemma length_zero_pad: "length (str_nat n) \<le> w \<Longrightarrow> length (zero_pad w n) = w"
  by (simp add: zero_pad_def)

lemma strftime_ymd_shape:
  assumes "year t < 10000" and "month t < 100" and "day t < 100"
  shows "length (strftime_ymd t) = 10 \<and> strftime_ymd t ! 4 = CHR ''-'' \<and> strftime_ymd t ! 7 = CHR ''-''"
proof -
  have y: "length (zero_pad 4 (year t)) = 4"
    using assms(1) length_str_nat [of 4 "year t"] by (simp add: length_zero_pad)
  have m: "length (zero_pad 2 (month t)) = 2"
    using assms(2) length_str_nat [of 2 "month t"] by (simp add: length_zero_pad)
  have d: "length (zero_pad 2 (day t)) = 2"
    using assms(3) length_str_nat [of 2 "day t"] by (simp add: length_zero_pad)
  show ?thesis by (simp add: strftime_ymd_def y m d nth_append)
qed

lemma strip_newlines:
  assumes "s \<noteq> []" and "\<not> is_space (hd s)" and "\<not> is_space (last s)"
  shows "strip (CHR 0x0A # s @ [CHR 0x0A]) = s"
proof -
  have nl: "is_space (CHR 0x0A)" by (simp add: is_space_def)
  obtain a s' where s: "s = a # s'" using assms(1) by (cases s) auto
  have 1: "dropWhile is_space (CHR 0x0A # s @ [CHR 0x0A]) = s @ [CHR 0x0A]"
    using nl assms(2) s by simp
  obtain b t where t: "rev s = b # t" using assms(1) by (cases "rev s") auto
  have "b = last s" using t by (metis last_rev list.sel(1) rev_rev_ident)
  then have b: "\<not> is_space b" using assms(3) by simp
  have "rev (s @ [CHR 0x0A]) = CHR 0x0A # b # t" using t by simp
  then have "dropWhile is_space (rev (s @ [CHR 0x0A])) = b # t" using nl b by simp
  then have 2: "dropWhile is_space (rev (s @ [CHR 0x0A])) = rev s" using t by simp
  show ?thesis unfolding strip_def 1 2 by simp
qed

lemma join_lines_between:
  "ls \<noteq> [] \<Longrightarrow> join_lines ('''' # ls @ ['''']) = CHR 0x0A # join_lines ls @ [CHR 0x0A]"
  by (cases ls) (simp_all add: join_lines_def)

lemma hd_join_lines: "l \<noteq> [] \<Longrightarrow> hd (join_lines (l # ls)) = hd l"
  by (simp add: join_lines_def)

lemma last_join_lines: "l \<noteq> [] \<Longrightarrow> ls \<noteq> [] \<Longrightarrow> last (join_lines (ls @ [l])) = last l"
  by (cases ls) (simp_all add: join_lines_def)

lemma fallback_report_text:
  "fallback_report fmt summ =
     join_lines
       [''## Data Cleaning Report'',
        '''',
        ''### Summary of Operations'',
        ''- **Original Records:** '' @ str_int (dict_get summ ''original_rows'' 0),
        ''- **Cleaned Records:** '' @ str_int (dict_get summ ''cleaned_rows'' 0),
        ''- **Records Removed:** '' @ str_int (dict_get summ ''rows_removed'' 0) @ '' (''
           @ fmt (real_of_int (dict_get summ ''rows_removed'' 0)
                    / real_of_int (max (dict_get summ ''original_rows'' 0) 1) * 100)
           @ ''%)'',
        '''',
        ''### Data Quality Improvements'',
        ''- **Duplicate Rows Removed:** '' @ str_int (dict_get summ ''duplicates_removed'' 0),
        ''- **Missing Values Fixed:** '' @ str_int (dict_get summ ''missing_values_handled'' 0),
        ''- **Outliers Replaced:** '' @ str_int (dict_get summ ''outliers_replaced'' 0),
        ''- **Date Formats Fixed:** '' @ str_int (dict_get summ ''date_columns_fixed'' 0),
        '''',
        ''### Recommendations'',
        ''1. **Review the cleaned data** to ensure quality meets your requirements'',
        ''2. **Validate date conversions** to confirm accuracy'',
        ''3. **Check categorical values** for consistency'',
        ''4. **Consider domain-specific rules** that may need additional cleaning'']"
    (is "_ = join_lines ?ls")
proof -
  let ?front = "[''## Data Cleaning Report'',
        '''',
        ''### Summary of Operations'',
        ''- **Original Records:** '' @ str_int (dict_get summ ''original_rows'' 0),
        ''- **Cleaned Records:** '' @ str_int (dict_get summ ''cleaned_rows'' 0),
        ''- **Records Removed:** '' @ str_int (dict_get summ ''rows_removed'' 0) @ '' (''
           @ fmt (real_of_int (dict_get summ ''rows_removed'' 0)
                    / real_of_int (max (dict_get summ ''original_rows'' 0) 1) * 100)
           @ ''%)'',
        '''',
        ''### Data Quality Improvements'',
        ''- **Duplicate Rows Removed:** '' @ str_int (dict_get summ ''duplicates_removed'' 0),
        ''- **Missing Values Fixed:** '' @ str_int (dict_get summ ''missing_values_handled'' 0),
        ''- **Outliers Replaced:** '' @ str_int (dict_get summ ''outliers_replaced'' 0),
        ''- **Date Formats Fixed:** '' @ str_int (dict_get summ ''date_columns_fixed'' 0),
        '''',
        ''### Recommendations'',
        ''1. **Review the cleaned data** to ensure quality meets your requirements'',
        ''2. **Validate date conversions** to confirm accuracy'',
        ''3. **Check categorical values** for consistency'']"
  let ?end = "''4. **Consider domain-specific rules** that may need additional cleaning''"
  have ls: "?ls = ?front @ [?end]" by simp
  have lines: "fallback_lines fmt summ = '''' # ?ls @ ['''']"
    by (simp add: fallback_lines_def percent_removed_def max_default)
  have ne: "join_lines ?ls \<noteq> []" by (simp add: join_lines_def)
  have h: "hd (join_lines ?ls) = CHR ''#''" by (subst hd_join_lines) simp_all
  have "last (join_lines (?front @ [?end])) = last ?end"
    by (rule last_join_lines) simp_all
  then have l: "last (join_lines ?ls) = CHR ''g''" unfolding ls by simp
  have sh: "\<not> is_space (CHR ''#'')" and sl: "\<not> is_space (CHR ''g'')" by (simp_all add: is_space_def)
  have "fallback_report fmt summ = strip (CHR 0x0A # join_lines ?ls @ [CHR 0x0A])"
    unfolding fallback_report_def lines by (subst join_lines_between) simp_all
  also have "\<dots> = join_lines ?ls"
    using ne h l sh sl by (intro strip_newlines) simp_all
  finally show ?thesis .
qed

section \<open>The generated script against the pipeline\<close>

text \<open>
  C1. The script that \<open>generate_python_script\<close> emits produces, for every input, the
  cleaned data frame that \<open>run_pipeline\<close> produces. Step 3 of the script fills a column
  only when the classifier says numeric or categorical, where the pipeline fills every
  column: on the frame with the columns id = 1, 2, 3, 4 and name = apple, pear, apple,
  absent, the script leaves the absent name and the pipeline fills it with the mode,
  apple.
\<close>

theorem script_differs_from_pipeline:
  "script_clean_data plain_pandas
      (Inr [(''id'', NumCol [Some 1, Some 2, Some 3, Some 4]),
            (''name'', ObjCol [Some ''apple'', Some ''pear'', Some ''apple'', None])])
     = Inr [(''id'', NumCol [Some 1, Some 2, Some 3, Some 4]),
            (''name'', ObjCol [Some ''apple'', Some ''pear'', Some ''apple'', None])]
   \<and> map_sum id fst (run_pipeline plain_pandas
      (Inr [(''id'', NumCol [Some 1, Some 2, Some 3, Some 4]),
            (''name'', ObjCol [Some ''apple'', Some ''pear'', Some ''apple'', None])]))
     = Inr [(''id'', NumCol [Some 1, Some 2, Some 3, Some 4]),
            (''name'', ObjCol [Some ''apple'', Some ''pear'', Some ''apple'', Some ''apple''])]"
  by code_simp

section \<open>Running the pipeline on its own output\<close>

text \<open>
  C2, as stated: a second run of the pipeline on the cleaned output of the first removes
  no duplicate row, replaces no outlier and leaves the row count unchanged. On the column
  0, 1, 3, 20, 100 the first run replaces 100 by the median 3; the second run then removes
  the second 3 as a duplicate row and replaces 20, an outlier of what is left.
\<close>

theorem second_run_counterexample:
  "map_sum id fst (run_pipeline plain_pandas (Inr [(''x'', NumCol [Some 0, Some 1, Some 3, Some 20, Some 100])]))
     = Inr [(''x'', NumCol [Some 0, Some 1, Some 3, Some 20, Some 3])]
   \<and> map_sum id fst (run_pipeline plain_pandas (Inr [(''x'', NumCol [Some 0, Some 1, Some 3, Some 20, Some 3])]))
     = Inr [(''x'', NumCol [Some 0, Some 1, Some 3, Some 2])]
   \<and> map_sum id (duplicates_removed \<circ> snd \<circ> snd)
         (run_pipeline plain_pandas (Inr [(''x'', NumCol [Some 0, Some 1, Some 3, Some 20, Some 3])])) = Inr 1
   \<and> map_sum id (outliers_replaced \<circ> snd \<circ> snd)
         (run_pipeline plain_pandas (Inr [(''x'', NumCol [Some 0, Some 1, Some 3, Some 20, Some 3])])) = Inr 1
   \<and> len_df [(''x'', NumCol [Some 0, Some 1, Some 3, Some 20, Some 3])] = 5
   \<and> len_df [(''x'', NumCol [Some 0, Some 1, Some 3, Some 2])] = 4"
  by code_simp

text \<open>
  C2, amended: a second run of the pipeline on the cleaned output of the first leaves the
  column count unchanged and does not raise the row count: the row count falls by the
  number of duplicate rows the second run removes, which is its \<open>rows_removed\<close>.
\<close>

theorem second_run_shape:
  assumes "run_pipeline P (Inr df) = Inr (df1, steps1, s1)"
    and "run_pipeline P (Inr df1) = Inr (df2, steps2, s2)"
  shows "length df2 = length df1
       \<and> columns s2 = columns s1
       \<and> len_df df2 \<le> len_df df1
       \<and> int (len_df df2) = int (len_df df1) - duplicates_removed s2
       \<and> rows_removed s2 = duplicates_removed s2"
  using run_pipeline_Inr [OF assms(1)] run_pipeline_Inr [OF assms(2)] by simp

theorem second_run_shape_witness:
  "run_pipeline plain_pandas (Inr [(''x'', NumCol [Some 0, Some 1, Some 3, Some 20, Some 100])])
     = Inr ([(''x'', NumCol [Some 0, Some 1, Some 3, Some 20, Some 3])],
            [(''load_csv'', ''Loaded CSV with 5 rows and 1 columns''),
             (''trim_and_normalize'', ''Trimmed and normalized 0 string values''),
             (''fix_dates'', ''Fixed 0 date columns to YYYY-MM-DD format''),
             (''handle_missing'', ''Handled 0 missing values''),
             (''remove_duplicates'', ''Removed 0 duplicate rows''),
             (''detect_outliers'', ''Detected and replaced 1 outliers using IQR method'')],
            \<lparr>original_rows = 5, cleaned_rows = 5, rows_removed = 0, columns = 1,
             missing_values_handled = 0, outliers_replaced = 1, date_columns_fixed = 0,
             duplicates_removed = 0\<rparr>)
   \<and> run_pipeline plain_pandas (Inr [(''x'', NumCol [Some 0, Some 1, Some 3, Some 20, Some 3])])
     = Inr ([(''x'', NumCol [Some 0, Some 1, Some 3, Some 2])],
            [(''load_csv'', ''Loaded CSV with 5 rows and 1 columns''),
             (''trim_and_normalize'', ''Trimmed and normalized 0 string values''),
             (''fix_dates'', ''Fixed 0 date columns to YYYY-MM-DD format''),
             (''handle_missing'', ''Handled 0 missing values''),
             (''remove_duplicates'', ''Removed 1 duplicate rows''),
             (''detect_outliers'', ''Detected and replaced 1 outliers using IQR method'')],
            \<lparr>original_rows = 5, cleaned_rows = 4, rows_removed = 1, columns = 1,
             missing_values_handled = 0, outliers_replaced = 1, date_columns_fixed = 0,
             duplicates_removed = 1\<rparr>)
   \<and> length [(''x'', NumCol [Some 0, Some 1, Some 3, Some 2])]
       = length [(''x'', NumCol [Some 0, Some 1, Some 3, Some 20, Some 3])]
   \<and> len_df [(''x'', NumCol [Some 0, Some 1, Some 3, Some 2])]
       \<le> len_df [(''x'', NumCol [Some 0, Some 1, Some 3, Some 20, Some 3])]
   \<and> int (len_df [(''x'', NumCol [Some 0, Some 1, Some 3, Some 2])])
       = int (len_df [(''x'', NumCol [Some 0, Some 1, Some 3, Some 20, Some 3])]) - 1"
proof -
  have a: "run_pipeline plain_pandas (Inr [(''x'', NumCol [Some 0, Some 1, Some 3, Some 20, Some 100])])
     = Inr ([(''x'', NumCol [Some 0, Some 1, Some 3, Some 20, Some 3])],
            [(''load_csv'', ''Loaded CSV with 5 rows and 1 columns''),
             (''trim_and_normalize'', ''Trimmed and normalized 0 string values''),
             (''fix_dates'', ''Fixed 0 date columns to YYYY-MM-DD format''),
             (''handle_missing'', ''Handled 0 missing values''),
             (''remove_duplicates'', ''Removed 0 duplicate rows''),
             (''detect_outliers'', ''Detected and replaced 1 outliers using IQR method'')],
            \<lparr>original_rows = 5, cleaned_rows = 5, rows_removed = 0, columns = 1,
             missing_values_handled = 0, outliers_replaced = 1, date_columns_fixed = 0,
             duplicates_removed = 0\<rparr>)"
    by code_simp
  have b: "run_pipeline plain_pandas (Inr [(''x'', NumCol [Some 0, Some 1, Some 3, Some 20, Some 3])])
     = Inr ([(''x'', NumCol [Some 0, Some 1, Some 3, Some 2])],
            [(''load_csv'', ''Loaded CSV with 5 rows and 1 columns''),
             (''trim_and_normalize'', ''Trimmed and normalized 0 string values''),
             (''fix_dates'', ''Fixed 0 date columns to YYYY-MM-DD format''),
             (''handle_missing'', ''Handled 0 missing values''),
             (''remove_duplicates'', ''Removed 1 duplicate rows''),
             (''detect_outliers'', ''Detected and replaced 1 outliers using IQR method'')],
            \<lparr>original_rows = 5, cleaned_rows = 4, rows_removed = 1, columns = 1,
             missing_values_handled = 0, outliers_replaced = 1, date_columns_fixed = 0,
             duplicates_removed = 1\<rparr>)"
    by code_simp
  from second_run_shape [OF a b] a b show ?thesis by simp
qed

section \<open>Properties of the missing value imputer\<close>

text \<open>
  C3. For every data frame and every column, after \<open>handle_missing_values\<close> the column
  holds no absent value, except when it had no non-absent value and no fallback applied:
  that column is a numeric column, and the stage leaves it as it was.
\<close>

theorem imputer_leaves_no_absent_values:
  assumes "i < length (cleaned_df self)"
  shows "let c = snd (cleaned_df self ! i);
             c' = snd (cleaned_df (handle_missing_values P self) ! i)
         in isna_sum c' = 0 \<or> (count_non_null c = 0 \<and> \<not> is_object c \<and> c' = c)"
proof -
  have "cleaned_df (handle_missing_values P self) = fst (for_columns (handle_missing_col P) (cleaned_df self))"
    by (simp add: handle_missing_values_def handle_missing_df_def case_prod_beta)
  then have "snd (cleaned_df (handle_missing_values P self) ! i)
      = fst (handle_missing_col P (snd (cleaned_df self ! i)))"
    using assms by (simp add: nth_for_columns)
  then show ?thesis
    using handle_missing_col_fills [of P "snd (cleaned_df self ! i)"] by (simp add: Let_def)
qed

theorem imputer_leaves_no_absent_values_witness:
  "isna_sum (snd (cleaned_df (handle_missing_values plain_pandas
      (new_pipeline\<lparr>cleaned_df :=
        [(''day'', ObjCol [None, Some ''2023-01-05'', None, Some ''2023-01-07'']),
         (''city'', ObjCol [Some ''rome'', None, Some ''oslo'', Some ''rome'']),
         (''size'', NumCol [Some 1, None, Some 3, Some 10]),
         (''note'', NumCol [None, None, None, None])]\<rparr>)) ! 0)) = 0
   \<and> snd (cleaned_df (handle_missing_values plain_pandas
      (new_pipeline\<lparr>cleaned_df :=
        [(''day'', ObjCol [None, Some ''2023-01-05'', None, Some ''2023-01-07'']),
         (''city'', ObjCol [Some ''rome'', None, Some ''oslo'', Some ''rome'']),
         (''size'', NumCol [Some 1, None, Some 3, Some 10]),
         (''note'', NumCol [None, None, None, None])]\<rparr>)) ! 3) = NumCol [None, None, None, None]"
proof -
  let ?df = "[(''day'', ObjCol [None, Some ''2023-01-05'', None, Some ''2023-01-07'']),
         (''city'', ObjCol [Some ''rome'', None, Some ''oslo'', Some ''rome'']),
         (''size'', NumCol [Some 1, None, Some 3, Some 10]),
         (''note'', NumCol [None, None, None, None])]"
  let ?S = "new_pipeline\<lparr>cleaned_df := ?df\<rparr>"
  have c: "cleaned_df ?S = ?df" by simp
  have l0: "0 < length (cleaned_df ?S)" and l3: "3 < length (cleaned_df ?S)" by simp_all
  have n0: "count_non_null (snd (?df ! 0)) \<noteq> 0" by code_simp
  have n3: "isna_sum (snd (cleaned_df (handle_missing_values plain_pandas ?S) ! 3)) \<noteq> 0" by code_simp
  have e3: "snd (?df ! 3) = NumCol [None, None, None, None]" by simp
  from imputer_leaves_no_absent_values [OF l0, of plain_pandas]
       imputer_leaves_no_absent_values [OF l3, of plain_pandas] n0 n3 e3
  show ?thesis unfolding Let_def c by metis
qed

section \<open>Properties of the date normalizer\<close>

text \<open>
  C4, as stated: for every column that the date normalizer classifies as date, if the
  fraction of the values that parse as dates, over all rows of the frame, exceeds 0.7,
  every value is replaced by its rendering \<open>YYYY-MM-DD\<close> and \<open>date_columns_fixed\<close> is
  incremented. A column of two timestamps with the UTC offsets +01:00 and +02:00 is
  classified as date and parses in full, but the parsed column is not a datetime series:
  the rendering raises, the handler leaves the column as it was, and the counter stays 0.
\<close>

theorem fix_dates_counterexample:
  "detect_column_type plain_pandas
      (ObjCol [Some ''2023-01-05T10:00:00+01:00'', Some ''2023-01-06T10:00:00+02:00'']) = TDate
   \<and> real (notna_sum (to_datetime_infer plain_pandas
        (ObjCol [Some ''2023-01-05T10:00:00+01:00'', Some ''2023-01-06T10:00:00+02:00''])))
       / real (len_df [(''seen'', ObjCol [Some ''2023-01-05T10:00:00+01:00'', Some ''2023-01-06T10:00:00+02:00''])])
       > 0.7
   \<and> cleaned_df (fix_dates plain_pandas (new_pipeline\<lparr>cleaned_df :=
        [(''seen'', ObjCol [Some ''2023-01-05T10:00:00+01:00'', Some ''2023-01-06T10:00:00+02:00''])]\<rparr>))
       = [(''seen'', ObjCol [Some ''2023-01-05T10:00:00+01:00'', Some ''2023-01-06T10:00:00+02:00''])]
   \<and> date_columns_fixed (summary (fix_dates plain_pandas (new_pipeline\<lparr>cleaned_df :=
        [(''seen'', ObjCol [Some ''2023-01-05T10:00:00+01:00'', Some ''2023-01-06T10:00:00+02:00''])]\<rparr>))) = 0"
  by code_simp

text \<open>
  C4, amended: for every column of a (rectangular) data frame that the date normalizer
  classifies as date: if the fraction of the values that parse as dates, over all rows
  of the frame, exceeds 0.7 and the parsed values form a datetime series (they carry one
  UTC offset, or none), every value is replaced by its rendering \<open>YYYY-MM-DD\<close>, a value
  that does not parse by the absent value, and the column adds one to
  \<open>date_columns_fixed\<close>; if the fraction does not exceed 0.7, or the parsed values do not
  form a datetime series, the column is left exactly as it was and adds nothing.
  \<open>date_columns_fixed\<close> is the number of the columns rewritten.
\<close>

theorem fix_dates_all_or_nothing:
  assumes "rectangular (cleaned_df self)"
    and "i < length (cleaned_df self)"
    and "cleaned_df self ! i = (name, c)"
    and "detect_column_type P c = TDate"
  shows "(if real (notna_sum (to_datetime_infer P c)) / real (len_df (cleaned_df self)) > 0.7
             \<and> datetimelike (to_datetime_infer P c)
          then cleaned_df (fix_dates P self) ! i
                 = (name, ObjCol (map (map_option strftime_ymd) (to_datetime_infer P c)))
               \<and> snd (fix_dates_col P (len_df (cleaned_df self)) c) = 1
          else cleaned_df (fix_dates P self) ! i = (name, c)
               \<and> snd (fix_dates_col P (len_df (cleaned_df self)) c) = 0)
       \<and> date_columns_fixed (summary (fix_dates P self))
           = int (sum_list (map (\<lambda>(name, c). snd (fix_dates_col P (len_df (cleaned_df self)) c)) (cleaned_df self)))
       \<and> date_columns_fixed (summary (fix_dates P self))
           = int (length (filter (\<lambda>(name, c). date_converts P (len_df (cleaned_df self)) c) (cleaned_df self)))"
proof -
  let ?df = "cleaned_df self"
  have mem: "(name, c) \<in> set ?df" using assms(2,3) by (metis nth_mem)
  have len: "len_df ?df > 0" using assms(1) mem assms(4) by (rule rectangular_date_len)
  have df': "cleaned_df (fix_dates P self) = fst (fix_dates_df P ?df)"
    by (simp add: fix_dates_def case_prod_beta)
  have cnt: "date_columns_fixed (summary (fix_dates P self)) = int (snd (fix_dates_df P ?df))"
    by (simp add: fix_dates_def case_prod_beta)
  have nth: "cleaned_df (fix_dates P self) ! i = (name, fst (fix_dates_col P (len_df ?df) c))"
    using assms(2,3) by (simp add: df' fix_dates_df_def nth_for_columns)
  have col: "fix_dates_col P (len_df ?df) c
      = (if real (notna_sum (to_datetime_infer P c)) / real (len_df ?df) > 0.7
            \<and> datetimelike (to_datetime_infer P c)
         then (ObjCol (map (map_option strftime_ymd) (to_datetime_infer P c)), 1)
         else (c, 0))"
    using len assms(4) by (simp add: fix_dates_col_cases date_converts_def)
  have a: "(if real (notna_sum (to_datetime_infer P c)) / real (len_df ?df) > 0.7
             \<and> datetimelike (to_datetime_infer P c)
          then cleaned_df (fix_dates P self) ! i
                 = (name, ObjCol (map (map_option strftime_ymd) (to_datetime_infer P c)))
               \<and> snd (fix_dates_col P (len_df ?df) c) = 1
          else cleaned_df (fix_dates P self) ! i = (name, c)
               \<and> snd (fix_dates_col P (len_df ?df) c) = 0)"
    by (simp add: nth col)
  have b: "date_columns_fixed (summary (fix_dates P self))
           = int (sum_list (map (\<lambda>(name, c). snd (fix_dates_col P (len_df ?df) c)) ?df))"
    by (simp add: cnt fix_dates_df_def snd_for_columns)
  have c: "date_columns_fixed (summary (fix_dates P self))
           = int (length (filter (\<lambda>(name, c). date_converts P (len_df ?df) c) ?df))"
    by (simp add: cnt fix_dates_count [OF assms(1)])
  from a b c show ?thesis by blast
qed

theorem fix_dates_all_or_nothing_witness:
  "cleaned_df (fix_dates plain_pandas (new_pipeline\<lparr>cleaned_df :=
      [(''start'', ObjCol [Some ''2023-01-05'', Some ''2023-01-06'', Some ''soon'', Some ''2023-01-08'',
                          Some ''2023-01-09'', Some ''2023-01-10'']),
       (''end'', ObjCol [Some ''2023-02-01'', None, None, Some ''2023-02-04'', None, None]),
       (''seen'', ObjCol [Some ''2023-01-05T10:00:00+01:00'', Some ''2023-01-06T10:00:00+02:00'',
                         Some ''2023-01-07T10:00:00+01:00'', Some ''2023-01-08T10:00:00+01:00'',
                         Some ''2023-01-09T10:00:00+01:00'', Some ''2023-01-10T10:00:00+01:00''])]\<rparr>)) ! 0
     = (''start'', ObjCol [Some ''2023-01-05'', Some ''2023-01-06'', None, Some ''2023-01-08'',
                          Some ''2023-01-09'', Some ''2023-01-10''])
   \<and> cleaned_df (fix_dates plain_pandas (new_pipeline\<lparr>cleaned_df :=
      [(''start'', ObjCol [Some ''2023-01-05'', Some ''2023-01-06'', Some ''soon'', Some ''2023-01-08'',
                          Some ''2023-01-09'', Some ''2023-01-10'']),
       (''end'', ObjCol [Some ''2023-02-01'', None, None, Some ''2023-02-04'', None, None]),
       (''seen'', ObjCol [Some ''2023-01-05T10:00:00+01:00'', Some ''2023-01-06T10:00:00+02:00'',
                         Some ''2023-01-07T10:00:00+01:00'', Some ''2023-01-08T10:00:00+01:00'',
                         Some ''2023-01-09T10:00:00+01:00'', Some ''2023-01-10T10:00:00+01:00''])]\<rparr>)) ! 1
     = (''end'', ObjCol [Some ''2023-02-01'', None, None, Some ''2023-02-04'', None, None])
   \<and> cleaned_df (fix_dates plain_pandas (new_pipeline\<lparr>cleaned_df :=
      [(''start'', ObjCol [Some ''2023-01-05'', Some ''2023-01-06'', Some ''soon'', Some ''2023-01-08'',
                          Some ''2023-01-09'', Some ''2023-01-10'']),
       (''end'', ObjCol [Some ''2023-02-01'', None, None, Some ''2023-02-04'', None, None]),
       (''seen'', ObjCol [Some ''2023-01-05T10:00:00+01:00'', Some ''2023-01-06T10:00:00+02:00'',
                         Some ''2023-01-07T10:00:00+01:00'', Some ''2023-01-08T10:00:00+01:00'',
                         Some ''2023-01-09T10:00:00+01:00'', Some ''2023-01-10T10:00:00+01:00''])]\<rparr>)) ! 2
     = (''seen'', ObjCol [Some ''2023-01-05T10:00:00+01:00'', Some ''2023-01-06T10:00:00+02:00'',
                         Some ''2023-01-07T10:00:00+01:00'', Some ''2023-01-08T10:00:00+01:00'',
                         Some ''2023-01-09T10:00:00+01:00'', Some ''2023-01-10T10:00:00+01:00''])
   \<and> date_columns_fixed (summary (fix_dates plain_pandas (new_pipeline\<lparr>cleaned_df :=
      [(''start'', ObjCol [Some ''2023-01-05'', Some ''2023-01-06'', Some ''soon'', Some ''2023-01-08'',
                          Some ''2023-01-09'', Some ''2023-01-10'']),
       (''end'', ObjCol [Some ''2023-02-01'', None, None, Some ''2023-02-04'', None, None]),
       (''seen'', ObjCol [Some ''2023-01-05T10:00:00+01:00'', Some ''2023-01-06T10:00:00+02:00'',
                         Some ''2023-01-07T10:00:00+01:00'', Some ''2023-01-08T10:00:00+01:00'',
                         Some ''2023-01-09T10:00:00+01:00'', Some ''2023-01-10T10:00:00+01:00''])]\<rparr>))) = 1"
proof -
  let ?a = "ObjCol [Some ''2023-01-05'', Some ''2023-01-06'', Some ''soon'', Some ''2023-01-08'',
                          Some ''2023-01-09'', Some ''2023-01-10'']"
  let ?b = "ObjCol [Some ''2023-02-01'', None, None, Some ''2023-02-04'', None, None]"
  let ?t = "ObjCol [Some ''2023-01-05T10:00:00+01:00'', Some ''2023-01-06T10:00:00+02:00'',
                         Some ''2023-01-07T10:00:00+01:00'', Some ''2023-01-08T10:00:00+01:00'',
                         Some ''2023-01-09T10:00:00+01:00'', Some ''2023-01-10T10:00:00+01:00'']"
  let ?df = "[(''start'', ?a), (''end'', ?b), (''seen'', ?t)]"
  let ?S = "new_pipeline\<lparr>cleaned_df := ?df\<rparr>"
  have c: "cleaned_df ?S = ?df" by simp
  have r: "rectangular (cleaned_df ?S)" unfolding c by code_simp
  have i0: "0 < length (cleaned_df ?S)" and i1: "1 < length (cleaned_df ?S)"
    and i2: "2 < length (cleaned_df ?S)" by simp_all
  have n0: "cleaned_df ?S ! 0 = (''start'', ?a)" and n1: "cleaned_df ?S ! 1 = (''end'', ?b)"
    and n2: "cleaned_df ?S ! 2 = (''seen'', ?t)" by simp_all
  have d0: "detect_column_type plain_pandas ?a = TDate" by code_simp
  have d1: "detect_column_type plain_pandas ?b = TDate" by code_simp
  have d2: "detect_column_type plain_pandas ?t = TDate" by code_simp
  have l: "len_df ?df = 6" by code_simp
  have s0: "notna_sum (to_datetime_infer plain_pandas ?a) = 5" by code_simp
  have s1: "notna_sum (to_datetime_infer plain_pandas ?b) = 2" by code_simp
  have s2: "notna_sum (to_datetime_infer plain_pandas ?t) = 6" by code_simp
  have t0: "datetimelike (to_datetime_infer plain_pandas ?a)" by code_simp
  have t2: "\<not> datetimelike (to_datetime_infer plain_pandas ?t)" by code_simp
  have m0: "map (map_option strftime_ymd) (to_datetime_infer plain_pandas ?a)
      = [Some ''2023-01-05'', Some ''2023-01-06'', None, Some ''2023-01-08'', Some ''2023-01-09'', Some ''2023-01-10'']"
    by code_simp
  have k: "length (filter (\<lambda>(name, c). date_converts plain_pandas (len_df ?df) c) ?df) = 1"
    by code_simp
  from fix_dates_all_or_nothing [OF r i0 n0 d0] fix_dates_all_or_nothing [OF r i1 n1 d1]
       fix_dates_all_or_nothing [OF r i2 n2 d2]
  show ?thesis unfolding c l s0 s1 s2 m0 k using t0 t2 by simp
qed

section \<open>Properties of the outlier replacer\<close>

text \<open>
  C5, as stated: for the numeric column 10, 12, 11, 13, 1000 the quantiles give a third
  quartile of about 12.5, an interquartile range of about 1.5 and an upper bound of about
  14.25. The third quartile is 13 and the upper bound is 16.
\<close>

theorem outlier_example_counterexample:
  "quantile 0.75 [Some 10, Some 12, Some 11, Some 13, Some 1000] = Some 13
   \<and> quantile 0.75 [Some 10, Some 12, Some 11, Some 13, Some 1000] \<noteq> Some 12.5
   \<and> iqr_bounds [Some 10, Some 12, Some 11, Some 13, Some 1000] = Some (8, 16)
   \<and> map_option snd (iqr_bounds [Some 10, Some 12, Some 11, Some 13, Some 1000]) \<noteq> Some 14.25"
  by code_simp

text \<open>
  C5, amended: for the numeric column 10, 12, 11, 13, 1000 the linear-interpolation
  quantiles give a first quartile of 11, a third quartile of 13, an interquartile range
  of 2 and the bounds 8 and 16; the value 1000 is replaced with the column median 12, and
  \<open>outliers_replaced\<close> is 1.
\<close>

theorem outlier_example:
  "quantile 0.25 [Some 10, Some 12, Some 11, Some 13, Some 1000] = Some 11
   \<and> quantile 0.75 [Some 10, Some 12, Some 11, Some 13, Some 1000] = Some 13
   \<and> iqr_bounds [Some 10, Some 12, Some 11, Some 13, Some 1000] = Some (11 - 1.5 * (13 - 11), 13 + 1.5 * (13 - 11))
   \<and> iqr_bounds [Some 10, Some 12, Some 11, Some 13, Some 1000] = Some (8, 16)
   \<and> median [Some 10, Some 12, Some 11, Some 13, Some 1000] = Some 12
   \<and> cleaned_df (detect_and_replace_outliers
         (self\<lparr>cleaned_df := [(name, NumCol [Some 10, Some 12, Some 11, Some 13, Some 1000])]\<rparr>))
       = [(name, NumCol [Some 10, Some 12, Some 11, Some 13, Some 12])]
   \<and> outliers_replaced (summary (detect_and_replace_outliers
         (self\<lparr>cleaned_df := [(name, NumCol [Some 10, Some 12, Some 11, Some 13, Some 1000])]\<rparr>))) = 1"
proof -
  have q: "quantile 0.25 [Some 10, Some 12, Some 11, Some 13, Some 1000] = Some 11
   \<and> quantile 0.75 [Some 10, Some 12, Some 11, Some 13, Some 1000] = Some 13
   \<and> iqr_bounds [Some 10, Some 12, Some 11, Some 13, Some 1000] = Some (11 - 1.5 * (13 - 11), 13 + 1.5 * (13 - 11))
   \<and> iqr_bounds [Some 10, Some 12, Some 11, Some 13, Some 1000] = Some (8, 16)
   \<and> median [Some 10, Some 12, Some 11, Some 13, Some 1000] = Some 12"
    by code_simp
  have o: "outliers_col (NumCol [Some 10, Some 12, Some 11, Some 13, Some 1000])
     = (NumCol [Some 10, Some 12, Some 11, Some 13, Some 12], 1)"
    by code_simp
  have d: "outliers_df [(name, NumCol [Some 10, Some 12, Some 11, Some 13, Some 1000])]
     = ([(name, NumCol [Some 10, Some 12, Some 11, Some 13, Some 12])], 1)"
    by (simp add: outliers_df_def for_columns_def o)
  show ?thesis using q by (simp add: detect_and_replace_outliers_def d)
qed

section \<open>Properties of the classifier\<close>



text \<open>
  C7, as stated: every column whose non-absent values are all identical and parse neither
  as numbers nor as dates, with at least one non-absent value, is classified categorical.
  A column with the single value \<open>north\<close> is classified string.
\<close>

theorem identical_values_counterexample:
  "nunique (ObjCol [Some ''north'']) = 1
   \<and> count_non_null (ObjCol [Some ''north'']) = 1
   \<and> notna_sum (to_numeric plain_pandas (ObjCol [Some ''north''])) = 0
   \<and> notna_sum (to_datetime plain_pandas (ObjCol [Some ''north''])) = 0
   \<and> detect_column_type plain_pandas (ObjCol [Some ''north'']) = TString
   \<and> detect_column_type plain_pandas (ObjCol [Some ''north'']) \<noteq> TCategorical"
  by code_simp

text \<open>
  C7, amended: a column whose non-absent values are all identical and parse neither as
  numbers nor as dates is classified categorical when it has at least three non-absent
  values, and string when it has one or two.
\<close>

theorem identical_values_classification:
  assumes "nunique c = 1"
    and "notna_sum (to_numeric P c) = 0" and "notna_sum (to_datetime P c) = 0"
  shows "detect_column_type P c = (if 3 \<le> count_non_null c then TCategorical else TString)"
proof -
  have "count_non_null c \<ge> 1" using nunique_le [of c] assms(1) by simp
  then show ?thesis using assms
    by (auto simp: detect_column_type_def unique_ratio_def numeric_test_def date_test_def field_simps)
qed

theorem identical_values_classification_witness:
  "detect_column_type plain_pandas (ObjCol [Some ''north'', None, Some ''north'', Some ''north'']) = TCategorical
   \<and> detect_column_type plain_pandas (ObjCol [Some ''north'', None, Some ''north'']) = TString"
proof -
  let ?c = "ObjCol [Some ''north'', None, Some ''north'', Some ''north'']"
  let ?d = "ObjCol [Some ''north'', None, Some ''north'']"
  have a: "nunique ?c = 1" by code_simp
  have b: "notna_sum (to_numeric plain_pandas ?c) = 0" by code_simp
  have c: "notna_sum (to_datetime plain_pandas ?c) = 0" by code_simp
  have n: "count_non_null ?c = 3" by code_simp
  have a': "nunique ?d = 1" by code_simp
  have b': "notna_sum (to_numeric plain_pandas ?d) = 0" by code_simp
  have c': "notna_sum (to_datetime plain_pandas ?d) = 0" by code_simp
  have n': "count_non_null ?d = 2" by code_simp
  from identical_values_classification [OF a b c] identical_values_classification [OF a' b' c'] n n'
  show ?thesis by simp
qed

section \<open>Properties of the string normalizer\<close>

text \<open>
  C8. The running total in the step description of \<open>trim_and_normalize_strings\<close> is the
  number of values whose content differs before and after the normalization; absent
  values contribute nothing to it. The code compares the column before and after with
  \<open>!=\<close>, under which an absent value differs from itself (\<open>trim_col_count\<close>): on the frame
  with the columns id = 1, 2 and city = paris, absent, no value changes and the step
  reports one value.
\<close>

theorem trim_counts_absent_values:
  "cleaned_df (trim_and_normalize_strings (new_pipeline\<lparr>cleaned_df :=
       [(''id'', NumCol [Some 1, Some 2]), (''city'', ObjCol [Some ''paris'', None])]\<rparr>))
     = [(''id'', NumCol [Some 1, Some 2]), (''city'', ObjCol [Some ''paris'', None])]
   \<and> cleaning_steps (trim_and_normalize_strings (new_pipeline\<lparr>cleaned_df :=
       [(''id'', NumCol [Some 1, Some 2]), (''city'', ObjCol [Some ''paris'', None])]\<rparr>))
     = [(''trim_and_normalize'', ''Trimmed and normalized 1 string values'')]"
  by code_simp

section \<open>Properties of the report\<close>

text \<open>
  C9. Whenever the narrative report generator raises, \<open>generate_ai_report\<close> returns the
  templated fallback report: the text below, built from the summary counters alone, in
  which the percentage of rows removed is \<open>rows_removed / max(original_rows, 1) * 100\<close>.
\<close>

theorem report_fallback_on_failure:
  assumes "try_generate W fmt (build_prompt odf cdf steps summ) summ ai_provider = Inl e"
  shows "generate_ai_report W fmt odf cdf steps summ ai_provider = fallback_report fmt summ
       \<and> generate_ai_report W fmt odf cdf steps summ ai_provider =
           join_lines
             [''## Data Cleaning Report'',
              '''',
              ''### Summary of Operations'',
              ''- **Original Records:** '' @ str_int (dict_get summ ''original_rows'' 0),
              ''- **Cleaned Records:** '' @ str_int (dict_get summ ''cleaned_rows'' 0),
              ''- **Records Removed:** '' @ str_int (dict_get summ ''rows_removed'' 0) @ '' (''
                 @ fmt (real_of_int (dict_get summ ''rows_removed'' 0)
                          / real_of_int (max (dict_get summ ''original_rows'' 0) 1) * 100)
                 @ ''%)'',
              '''',
              ''### Data Quality Improvements'',
              ''- **Duplicate Rows Removed:** '' @ str_int (dict_get summ ''duplicates_removed'' 0),
              ''- **Missing Values Fixed:** '' @ str_int (dict_get summ ''missing_values_handled'' 0),
              ''- **Outliers Replaced:** '' @ str_int (dict_get summ ''outliers_replaced'' 0),
              ''- **Date Formats Fixed:** '' @ str_int (dict_get summ ''date_columns_fixed'' 0),
              '''',
              ''### Recommendations'',
              ''1. **Review the cleaned data** to ensure quality meets your requirements'',
              ''2. **Validate date conversions** to confirm accuracy'',
              ''3. **Check categorical values** for consistency'',
              ''4. **Consider domain-specific rules** that may need additional cleaning'']"
proof -
  from assms have r: "generate_ai_report W fmt odf cdf steps summ ai_provider = fallback_report fmt summ"
    by (simp add: generate_ai_report_def)
  show ?thesis unfolding r by (simp add: fallback_report_text)
qed

theorem report_fallback_on_failure_witness:
  "generate_ai_report
      \<lparr>getenv = (\<lambda>k. None), openai_create = (\<lambda>k p. Inr ''narrative''), groq_create = (\<lambda>k p. Inr ''narrative'')\<rparr>
      render_1f [] [] []
      [''original_rows'' \<mapsto> 8, ''cleaned_rows'' \<mapsto> 7, ''rows_removed'' \<mapsto> 1, ''duplicates_removed'' \<mapsto> 1]
      ''OpenAI''
     = join_lines
         [''## Data Cleaning Report'',
          '''',
          ''### Summary of Operations'',
          ''- **Original Records:** 8'',
          ''- **Cleaned Records:** 7'',
          ''- **Records Removed:** 1 (12.5%)'',
          '''',
          ''### Data Quality Improvements'',
          ''- **Duplicate Rows Removed:** 1'',
          ''- **Missing Values Fixed:** 0'',
          ''- **Outliers Replaced:** 0'',
          ''- **Date Formats Fixed:** 0'',
          '''',
          ''### Recommendations'',
          ''1. **Review the cleaned data** to ensure quality meets your requirements'',
          ''2. **Validate date conversions** to confirm accuracy'',
          ''3. **Check categorical values** for consistency'',
          ''4. **Consider domain-specific rules** that may need additional cleaning'']"
proof -
  let ?W = "\<lparr>getenv = (\<lambda>k. None), openai_create = (\<lambda>k p. Inr ''narrative''), groq_create = (\<lambda>k p. Inr ''narrative'')\<rparr>"
  let ?s = "[''original_rows'' \<mapsto> 8, ''cleaned_rows'' \<mapsto> 7, ''rows_removed'' \<mapsto> 1, ''duplicates_removed'' \<mapsto> (1::int)]"
  have l: "lower ''OpenAI'' = ''openai''" by code_simp
  have h: "try_generate ?W render_1f (build_prompt [] [] [] ?s) ?s ''OpenAI'' = Inl ''OPENAI_API_KEY not set''"
    by (simp add: try_generate_def l call_openai_def)
  have g: "dict_get ?s ''original_rows'' 0 = 8" "dict_get ?s ''cleaned_rows'' 0 = 7"
    "dict_get ?s ''rows_removed'' 0 = 1" "dict_get ?s ''duplicates_removed'' 0 = 1"
    "dict_get ?s ''missing_values_handled'' 0 = 0" "dict_get ?s ''outliers_replaced'' 0 = 0"
    "dict_get ?s ''date_columns_fixed'' 0 = 0"
    by (simp_all add: dict_get_def)
  have i: "str_int 8 = ''8''" "str_int 7 = ''7''" "str_int 1 = ''1''" "str_int 0 = ''0''"
    by code_simp+
  have f: "render_1f (real_of_int 1 / real_of_int (max 8 1) * 100) = ''12.5''" by code_simp
  note rep = report_fallback_on_failure [OF h, THEN conjunct2]
  show ?thesis using rep unfolding g i f by simp
qed

section \<open>Properties of the script synthesizer\<close>

text \<open>
  C10. For every pair of arguments (cleaning steps, original columns),
  \<open>generate_python_script\<close> returns the identical string: two calls with any two
  argument pairs return equal strings.
\<close>

theorem generate_python_script_constant:
  "generate_python_script steps1 columns1 = generate_python_script steps2 columns2"
  by (simp add: generate_python_script_def)

end
